theory Spec2Isabelle
  imports Main "HOL-Library.List_Lexorder" "HOL-Library.AList"
begin

section \<open>Strings, patterns and paths\<close>

text \<open>
  A Python \<open>str\<close> is a sequence of Unicode code points, and several strings of this
  program are Cyrillic, so a string is a list of code points. The order on lists is the
  lexicographic one, which is how Python compares two \<open>str\<close> values.
\<close>

type_synonym ustr = "nat list"

definition ascii :: "string \<Rightarrow> ustr" where
  "ascii s = map of_char s"

text \<open>
  The class \<open>\d\<close> of a \<open>str\<close> pattern is the Unicode category Nd: 66 runs of ten
  consecutive code points (Unicode 14, as shipped with CPython 3.11), each run holding
  the digits zero to nine in order. \<open>\s\<close> is Unicode white space.
\<close>

definition decimal_runs :: "nat list" where
  "decimal_runs =
     [0x30, 0x660, 0x6F0, 0x7C0, 0x966, 0x9E6, 0xA66, 0xAE6, 0xB66, 0xBE6, 0xC66, 0xCE6,
      0xD66, 0xDE6, 0xE50, 0xED0, 0xF20, 0x1040, 0x1090, 0x17E0, 0x1810, 0x1946, 0x19D0,
      0x1A80, 0x1A90, 0x1B50, 0x1BB0, 0x1C40, 0x1C50, 0xA620, 0xA8D0, 0xA900, 0xA9D0,
      0xA9F0, 0xAA50, 0xABF0, 0xFF10, 0x104A0, 0x10D30, 0x11066, 0x110F0, 0x11136,
      0x111D0, 0x112F0, 0x11450, 0x114D0, 0x11650, 0x116C0, 0x11730, 0x118E0, 0x11950,
      0x11C50, 0x11D50, 0x11DA0, 0x16A60, 0x16AC0, 0x16B50, 0x1D7CE, 0x1D7D8, 0x1D7E2,
      0x1D7EC, 0x1D7F6, 0x1E140, 0x1E2F0, 0x1E950, 0x1FBF0]"

definition unicode_decimal :: "nat \<Rightarrow> bool" where
  "unicode_decimal c = list_ex (\<lambda>b. b \<le> c \<and> c < b + 10) decimal_runs"

definition unicode_space :: "nat \<Rightarrow> bool" where
  "unicode_space c =
     ((0x9 \<le> c \<and> c \<le> 0xD) \<or> (0x1C \<le> c \<and> c \<le> 0x20) \<or> c = 0x85 \<or> c = 0xA0
      \<or> c = 0x1680 \<or> (0x2000 \<le> c \<and> c \<le> 0x200A) \<or> c = 0x2028 \<or> c = 0x2029
      \<or> c = 0x202F \<or> c = 0x205F \<or> c = 0x3000)"

text \<open>
  \<open>re.search\<close> tries the pattern at every position from the left and returns the first
  match; \<open>re_search m\<close> does so for a pattern given by its matcher \<open>m\<close> anchored at the
  start of the text.
\<close>

fun re_search :: "(ustr \<Rightarrow> 'a option) \<Rightarrow> ustr \<Rightarrow> 'a option" where
  "re_search m [] = m []"
| "re_search m (c # cs) =
     (case m (c # cs) of Some g \<Rightarrow> Some g | None \<Rightarrow> re_search m cs)"

text \<open>
  The two file-name patterns, \<open>tpo_payments_(\d{6})_EXTRACTED\.csv\<close> and
  \<open>tpo_payment_actions_(\d{6})_EXTRACTED\.csv\<close>: a literal, six decimal digits (the
  group), a literal.
\<close>

definition match_digits6 :: "ustr \<Rightarrow> ustr \<Rightarrow> ustr \<Rightarrow> ustr option" where
  "match_digits6 pre suf s =
     (let d = take 6 (drop (length pre) s) in
      if take (length pre) s = pre \<and> length d = 6 \<and> list_all unicode_decimal d
         \<and> take (length suf) (drop (length pre + 6) s) = suf
      then Some d else None)"

definition payments_pattern :: "ustr \<Rightarrow> ustr option" where
  "payments_pattern = match_digits6 (ascii ''tpo_payments_'') (ascii ''_EXTRACTED.csv'')"

definition payment_actions_pattern :: "ustr \<Rightarrow> ustr option" where
  "payment_actions_pattern =
     match_digits6 (ascii ''tpo_payment_actions_'') (ascii ''_EXTRACTED.csv'')"

text \<open>The test \<open>x in s\<close> on two strings: \<open>x\<close> occurs in \<open>s\<close> as a substring.\<close>

fun contains :: "ustr \<Rightarrow> ustr \<Rightarrow> bool" where
  "contains x [] = (x = [])"
| "contains x (c # cs) = (take (length x) (c # cs) = x \<or> contains x cs)"

text \<open>\<open>os.path.join\<close> and \<open>os.path.basename\<close> of \<open>posixpath\<close>; \<open>0x2F\<close> is the slash.\<close>

definition path_join :: "ustr \<Rightarrow> ustr \<Rightarrow> ustr" where
  "path_join a b =
     (if take 1 b = [0x2F] then b
      else if a = [] \<or> last a = 0x2F then a @ b
      else a @ [0x2F] @ b)"

definition basename :: "ustr \<Rightarrow> ustr" where
  "basename p = rev (takeWhile (\<lambda>c. c \<noteq> 0x2F) (rev p))"

section \<open>Delimited files and data frames\<close>

text \<open>
  A value held by a data frame: a string, an integer, or the missing value (Python's
  \<open>None\<close>, pandas' \<open>NaN\<close>). A flat JSON object, and a row built from one, is a list of
  keys with their values. A data frame is kept by columns, each with its values in row
  order.
\<close>

datatype cell = StrCell ustr | IntCell int | NaN

type_synonym jrow = "(ustr \<times> cell) list"

type_synonym dataframe = "(ustr \<times> cell list) list"

text \<open>
  On disk a delimited file is its header and, for each column, the field texts in row
  order; quoting is a detail of the serialisation that \<open>read_csv\<close> undoes. A file that
  \<open>read_csv\<close> cannot parse at all is \<open>Unreadable\<close>.
\<close>

type_synonym table = "(ustr \<times> ustr list) list"

datatype csv_file = Csv table | Unreadable

datatype exc = FileNotFoundError | UnboundLocalError | OtherException

fun digits_of_nat :: "nat \<Rightarrow> ustr" where
  "digits_of_nat n =
     (if n < 10 then [0x30 + n] else digits_of_nat (n div 10) @ [0x30 + n mod 10])"

declare digits_of_nat.simps [simp del]

definition nat_of_digits :: "ustr \<Rightarrow> nat" where
  "nat_of_digits t = foldl (\<lambda>a c. 10 * a + (c - 0x30)) 0 t"

definition ascii_digit :: "nat \<Rightarrow> bool" where
  "ascii_digit c = (0x30 \<le> c \<and> c \<le> 0x39)"

text \<open>
  \<open>read_csv\<close> infers the type of each column from its fields. A column whose fields are
  all written with the digits 0 to 9 and fit 64 signed bits is a column of integers;
  the values are the numbers, not the texts. Any other column keeps its fields as
  strings, a blank field being the missing value. (pandas also recognises signed
  numbers, fractions and truth values; this program writes none into the files it
  reads back, and the model reads them as strings.)
\<close>

definition int_literal :: "ustr \<Rightarrow> bool" where
  "int_literal t = (t \<noteq> [] \<and> list_all ascii_digit t \<and> nat_of_digits t < 2 ^ 63)"

definition infer_column :: "ustr list \<Rightarrow> cell list" where
  "infer_column ts =
     (if list_all int_literal ts then map (\<lambda>t. IntCell (int (nat_of_digits t))) ts
      else map (\<lambda>t. if t = [] then NaN else StrCell t) ts)"

text \<open>
  \<open>pd.read_csv\<close>: \<open>FileNotFoundError\<close> when there is no file, another exception when
  the file cannot be parsed or has no columns (\<open>EmptyDataError\<close>).
\<close>

definition read_csv :: "(ustr \<times> csv_file) list \<Rightarrow> ustr \<Rightarrow> exc + dataframe" where
  "read_csv files p =
     (case map_of files p of
        None \<Rightarrow> Inl FileNotFoundError
      | Some Unreadable \<Rightarrow> Inl OtherException
      | Some (Csv t) \<Rightarrow>
          if t = [] then Inl OtherException
          else Inr (map (\<lambda>(c, ts). (c, infer_column ts)) t))"

definition render :: "cell \<Rightarrow> ustr" where
  "render v =
     (case v of
        StrCell s \<Rightarrow> s
      | IntCell i \<Rightarrow> (if i < 0 then 0x2D # digits_of_nat (nat (- i)) else digits_of_nat (nat i))
      | NaN \<Rightarrow> [])"

definition csv_text :: "dataframe \<Rightarrow> table" where
  "csv_text df = map (\<lambda>(c, vs). (c, map render vs)) df"

definition columns :: "dataframe \<Rightarrow> ustr list" where
  "columns df = map fst df"

definition nrows :: "dataframe \<Rightarrow> nat" where
  "nrows df = (case df of [] \<Rightarrow> 0 | (c, vs) # _ \<Rightarrow> length vs)"

definition empty_frame :: "dataframe \<Rightarrow> bool" where
  "empty_frame df = (df = [] \<or> nrows df = 0)"

text \<open>\<open>unique\<close> keeps the first occurrence of each value, in order of appearance.\<close>

fun unique :: "'a list \<Rightarrow> 'a list" where
  "unique [] = []"
| "unique (x # xs) = x # unique (filter (\<lambda>y. y \<noteq> x) xs)"

text \<open>
  \<open>pd.DataFrame(records)\<close> for a list of flat objects: the columns are the keys in
  order of first appearance, and an object without a key has the missing value there.
\<close>

definition lookup :: "jrow \<Rightarrow> ustr \<Rightarrow> cell" where
  "lookup r c = (case map_of r c of Some v \<Rightarrow> v | None \<Rightarrow> NaN)"

definition frame_with :: "ustr list \<Rightarrow> jrow list \<Rightarrow> dataframe" where
  "frame_with cs rs = map (\<lambda>c. (c, map (\<lambda>r. lookup r c) rs)) cs"

definition DataFrame :: "jrow list \<Rightarrow> dataframe" where
  "DataFrame rs = frame_with (unique (concat (map (map fst) rs))) rs"

text \<open>
  \<open>pd.concat([existing_df, new_df], ignore_index=True)\<close> where \<open>new_df\<close> has the one
  column \<open>c\<close> and the one value \<open>v\<close>: the new row has \<open>v\<close> under \<open>c\<close> and the missing
  value elsewhere; \<open>c\<close> becomes a new last column when \<open>existing_df\<close> lacks it.
\<close>

definition concat_row :: "dataframe \<Rightarrow> ustr \<Rightarrow> cell \<Rightarrow> dataframe" where
  "concat_row df c v =
     (let old = map (\<lambda>(k, vs). (k, vs @ [if k = c then v else NaN])) df in
      if c \<in> set (columns df) then old
      else old @ [(c, replicate (nrows df) NaN @ [v])])"

section \<open>The environment and the state of a run\<close>

text \<open>
  What a remote call can give: no connection (\<open>requests.get\<close> itself raises), an error
  status (\<open>raise_for_status\<close> raises), a body that is not JSON, or the decoded body.
  The endpoints are taken to follow their schema: the payments endpoint returns a list
  of flat objects, the actions endpoint an object whose member \<open>actions\<close>, when present,
  is a list of flat objects, and the details endpoint an object with scalar members and
  the two optional lists \<open>history\<close> and \<open>metadata\<close> of flat objects.
\<close>

datatype 'a response = ConnectionFailed | HttpError nat | InvalidJson | Json 'a

record action_details_json =
  members :: jrow
  history :: "jrow list option"
  metadata :: "jrow list option"

datatype script =
  EXTRACT_PAYMENTS_SCRIPT | EXTRACT_PAYMENT_ACTIONS_SCRIPT | EXTRACT_ACTION_DETAILS_SCRIPT

text \<open>
  The environment of a run: the two environment variables, whether the \<open>python\<close>
  executable is found, whether the interpreter fails to run a script at all (script file
  missing, failed import: a non-zero status before the script's first statement),
  whether \<open>os.makedirs\<close> and a write to a path raise, and the three endpoints.
\<close>

record env =
  PROCESSED_DATA_PATH :: "ustr option"
  TRAVELPAYOUTS_API_TOKEN :: "ustr option"
  python_found :: bool
  launch_fails :: "script \<Rightarrow> ustr list \<Rightarrow> bool"
  makedirs_fails :: bool
  write_fails :: "ustr \<Rightarrow> bool"
  get_user_payments :: "jrow list response"
  get_user_actions_affecting_payment :: "cell \<Rightarrow> jrow list option response"
  get_action_details_endpoint :: "cell \<Rightarrow> action_details_json response"

text \<open>
  The state: the files on disk, in the order a directory scan lists them, and the trace
  of what the orchestrator did: each subprocess it ran, with its arguments and whether
  \<open>run_script\<close> returned \<open>True\<close>, each payment file its loop took up, and each call of
  \<open>mark_period_as_processed\<close>.
\<close>

datatype event = Launch script "ustr list" bool | Examine ustr | MarkProcessed ustr

record world =
  files :: "(ustr \<times> csv_file) list"
  trace :: "event list"

text \<open>\<open>df.to_csv(p)\<close>: \<open>None\<close> when the write raises, else the state with the file written.\<close>

definition to_csv :: "env \<Rightarrow> dataframe \<Rightarrow> ustr \<Rightarrow> world \<Rightarrow> world option" where
  "to_csv e df p w =
     (if write_fails e p then None
      else Some (w\<lparr>files := AList.update p (Csv (csv_text df)) (files w)\<rparr>))"

definition TPO_API_DATA_PATH :: "env \<Rightarrow> ustr" where
  "TPO_API_DATA_PATH e =
     (case PROCESSED_DATA_PATH e of None \<Rightarrow> ascii ''data/tpo_api_data'' | Some p \<Rightarrow> p)"

definition no_token :: "env \<Rightarrow> bool" where
  "no_token e = (case TRAVELPAYOUTS_API_TOKEN e of None \<Rightarrow> True | Some t \<Rightarrow> t = [])"

definition PAYMENTS_SUBFOLDER :: ustr where
  "PAYMENTS_SUBFOLDER = ascii ''payments''"

definition PAYMENT_ACTIONS_SUBFOLDER :: ustr where
  "PAYMENT_ACTIONS_SUBFOLDER = ascii ''payment_actions''"

definition ACTION_DETAILS_SUBFOLDER :: ustr where
  "ACTION_DETAILS_SUBFOLDER = ascii ''action_details''"

definition PROCESSED_DATES_FILENAME :: ustr where
  "PROCESSED_DATES_FILENAME = ascii ''processed_dates.csv''"

definition PAYMENTS_METADATA_FILENAME :: ustr where
  "PAYMENTS_METADATA_FILENAME = ascii ''payments_metadata.csv''"

definition MIN_YEAR_MONTH :: ustr where
  "MIN_YEAR_MONTH = ascii ''201801''"

section \<open>The ledger of processed periods (etl\_pipeline.py)\<close>

text \<open>
  \<open>year_month in processed_dates_df["year_month"].values\<close> compares the string
  \<open>year_month\<close> with each value of the column: it is true when the column holds that
  string. A string is never equal to an integer of the column. A frame without the
  column raises \<open>KeyError\<close>, which the function catches like a failed read.
\<close>

definition is_period_processed :: "env \<Rightarrow> world \<Rightarrow> ustr \<Rightarrow> bool" where
  "is_period_processed e w year_month =
     (let processed_dates_filepath = path_join (TPO_API_DATA_PATH e) PROCESSED_DATES_FILENAME in
      if map_of (files w) processed_dates_filepath \<noteq> None then
        (case read_csv (files w) processed_dates_filepath of
           Inl x \<Rightarrow> False
         | Inr processed_dates_df \<Rightarrow>
             (case map_of processed_dates_df (ascii ''year_month'') of
                None \<Rightarrow> False
              | Some vals \<Rightarrow> StrCell year_month \<in> set vals))
      else False)"

definition mark_period_as_processed :: "env \<Rightarrow> ustr \<Rightarrow> world \<Rightarrow> world" where
  "mark_period_as_processed e year_month w =
     (let processed_dates_filepath = path_join (TPO_API_DATA_PATH e) PROCESSED_DATES_FILENAME;
          w0 = w\<lparr>trace := trace w @ [MarkProcessed year_month]\<rparr> in
      if map_of (files w0) processed_dates_filepath \<noteq> None then
        (case read_csv (files w0) processed_dates_filepath of
           Inl x \<Rightarrow> w0
         | Inr existing_df \<Rightarrow>
             (case to_csv e (concat_row existing_df (ascii ''year_month'') (StrCell year_month))
                     processed_dates_filepath w0 of
                None \<Rightarrow> w0
              | Some w1 \<Rightarrow> w1))
      else
        (case to_csv e [(ascii ''year_month'', [StrCell year_month])] processed_dates_filepath w0 of
           None \<Rightarrow> w0
         | Some w1 \<Rightarrow> w1))"

section \<open>The payment-action extractor (extract\_travelpayouts\_payment\_actions.py)\<close>

text \<open>
  \<open>get_payment_actions\<close> returns the decoded body, or \<open>None\<close> after any failure of the
  call. The body is an object; it is \<open>Some actions\<close> when it has the member \<open>actions\<close>
  and \<open>None\<close> when it has not (an empty object among them).
\<close>

definition get_payment_actions :: "env \<Rightarrow> cell \<Rightarrow> jrow list option option" where
  "get_payment_actions e payment_uuid =
     (case get_user_actions_affecting_payment e payment_uuid of
        Json data \<Rightarrow> Some data
      | _ \<Rightarrow> None)"

definition save_actions_to_csv ::
    "env \<Rightarrow> jrow list option option \<Rightarrow> ustr \<Rightarrow> world \<Rightarrow> bool \<times> world" where
  "save_actions_to_csv e actions_data csv_filepath w =
     (case actions_data of
        None \<Rightarrow> (False, w)
      | Some None \<Rightarrow> (False, w)
      | Some (Some actions) \<Rightarrow>
          (case to_csv e (DataFrame actions) csv_filepath w of
             None \<Rightarrow> (False, w)
           | Some w' \<Rightarrow> (True, w')))"

text \<open>The loop over the payments: the actions of every payment whose call gave some.\<close>

definition collect_actions :: "env \<Rightarrow> cell list \<Rightarrow> jrow list" where
  "collect_actions e payment_uuids =
     concat (map (\<lambda>payment_uuid.
        case get_payment_actions e payment_uuid of
          Some (Some actions) \<Rightarrow> actions
        | _ \<Rightarrow> []) payment_uuids)"

definition actions_filepath :: "ustr \<Rightarrow> ustr \<Rightarrow> ustr" where
  "actions_filepath processed_data_path year_month =
     path_join (path_join processed_data_path PAYMENT_ACTIONS_SUBFOLDER)
       (ascii ''tpo_payment_actions_'' @ year_month @ ascii ''_EXTRACTED.csv'')"

definition extract_payment_actions :: "env \<Rightarrow> ustr \<Rightarrow> world \<Rightarrow> bool \<times> world" where
  "extract_payment_actions e payments_csv_path w =
     (case read_csv (files w) payments_csv_path of
        Inl x \<Rightarrow> (False, w)
      | Inr payments_df \<Rightarrow>
          (case map_of payments_df (ascii ''payment_uuid'') of
             None \<Rightarrow> (False, w)
           | Some payment_uuids \<Rightarrow>
               if ascii ''year_month'' \<notin> set (columns payments_df) then (False, w)
               else
                 (case re_search payments_pattern (basename payments_csv_path) of
                    None \<Rightarrow> (False, w)
                  | Some year_month \<Rightarrow>
                      (let all_actions = collect_actions e payment_uuids in
                       if all_actions \<noteq> [] then
                         (True, snd (save_actions_to_csv e (Some (Some all_actions))
                                       (actions_filepath (TPO_API_DATA_PATH e) year_month) w))
                       else (True, w)))))"

text \<open>
  A frame has the column \<open>c\<close> exactly when \<open>map_of df c\<close> is not \<open>None\<close>; the two tests
  of the columns are made in the order of the source.

  The script as a process: its exit status and the state it leaves. Without a token the
  script calls \<open>exit()\<close>, which ends the process with status 0. A failing \<open>os.makedirs\<close>
  is an uncaught exception (status 1), a wrong number of arguments is refused by
  \<open>argparse\<close> (status 2). The result of \<open>extract_payment_actions\<close> is not used, and the
  script ends with status 0 after it.
\<close>

definition payment_actions_main :: "env \<Rightarrow> ustr list \<Rightarrow> world \<Rightarrow> nat \<times> world" where
  "payment_actions_main e args w =
     (if no_token e then (0, w)
      else if makedirs_fails e then (1, w)
      else
        (case args of
           [payments_csv_path] \<Rightarrow> (0, snd (extract_payment_actions e payments_csv_path w))
         | _ \<Rightarrow> (2, w)))"

section \<open>The action-detail extractor (extract\_travelpayouts\_action\_details.py)\<close>

text \<open>
  In \<open>get_action_details\<close> the handler of \<open>RequestException\<close> reads the variable
  \<open>response\<close>. When \<open>requests.get\<close> itself raised, that variable was never assigned,
  and the handler raises \<open>UnboundLocalError\<close>, which nothing catches. After an error
  status or an undecodable body the variable is assigned and the function returns
  \<open>None\<close>.
\<close>

definition get_action_details :: "env \<Rightarrow> cell \<Rightarrow> exc + action_details_json option" where
  "get_action_details e action_id =
     (case get_action_details_endpoint e action_id of
        ConnectionFailed \<Rightarrow> Inl UnboundLocalError
      | HttpError status \<Rightarrow> Inr None
      | InvalidJson \<Rightarrow> Inr None
      | Json data \<Rightarrow> Inr (Some data))"

text \<open>\<open>str\<close> of a value, as an f-string formats it.\<close>

definition py_str :: "cell \<Rightarrow> ustr" where
  "py_str v = (case v of NaN \<Rightarrow> ascii ''None'' | _ \<Rightarrow> render v)"

text \<open>
  The dictionary comprehension over the metadata items: a later item replaces the value
  of an equal name; an item without \<open>name\<close> or \<open>value\<close> raises \<open>KeyError\<close> (\<open>None\<close>).
\<close>

fun dict_of_metadata ::
    "jrow list \<Rightarrow> (cell \<times> cell) list \<Rightarrow> (cell \<times> cell) list option" where
  "dict_of_metadata [] acc = Some acc"
| "dict_of_metadata (item # items) acc =
     (case (map_of item (ascii ''name''), map_of item (ascii ''value'')) of
        (Some name, Some val) \<Rightarrow> dict_of_metadata items (AList.update name val acc)
      | _ \<Rightarrow> None)"

definition process_action_details :: "action_details_json option \<Rightarrow> jrow option" where
  "process_action_details action_details =
     (case action_details of
        None \<Rightarrow> None
      | Some d \<Rightarrow>
          (let data = map (\<lambda>k. (ascii k, lookup (members d) (ascii k)))
                        [''action_id'', ''campaign_id'', ''action_state'', ''sub_id'',
                         ''price'', ''profit'', ''booked_at''];
               first = (case history d of Some (h # hs) \<Rightarrow> h | _ \<Rightarrow> []);
               data = data @ map (\<lambda>k. (ascii ''history_'' @ ascii k, lookup first (ascii k)))
                        [''action_state'', ''price'', ''profit'', ''profit_diff'', ''updated_at'']
           in case metadata d of
                Some (m # ms) \<Rightarrow>
                  (case dict_of_metadata (m # ms) [] of
                     None \<Rightarrow> None
                   | Some md \<Rightarrow>
                       Some (foldl (\<lambda>data (key, val).
                                      AList.update (ascii ''metadata_'' @ py_str key) val data)
                               data md))
              | _ \<Rightarrow> Some data))"

definition save_actions_details_to_csv ::
    "env \<Rightarrow> jrow list \<Rightarrow> ustr \<Rightarrow> world \<Rightarrow> bool \<times> world" where
  "save_actions_details_to_csv e all_details csv_filepath w =
     (if all_details = [] then (False, w)
      else
        (case to_csv e (DataFrame all_details) csv_filepath w of
           None \<Rightarrow> (False, w)
         | Some w' \<Rightarrow> (True, w')))"

text \<open>An object is true in a condition when it has a member.\<close>

definition truthy :: "action_details_json \<Rightarrow> bool" where
  "truthy d = (members d \<noteq> [] \<or> history d \<noteq> None \<or> metadata d \<noteq> None)"

text \<open>
  The loop over the action identifiers: the processed details of every action, or the
  exception that ends the script.
\<close>

fun collect_details :: "env \<Rightarrow> cell list \<Rightarrow> exc + jrow list" where
  "collect_details e [] = Inr []"
| "collect_details e (action_id # rest) =
     (case get_action_details e action_id of
        Inl x \<Rightarrow> Inl x
      | Inr action_details \<Rightarrow>
          (let here = (case action_details of
                         None \<Rightarrow> []
                       | Some d \<Rightarrow>
                           if truthy d then
                             (case process_action_details action_details of
                                Some processed_details \<Rightarrow> [processed_details]
                              | None \<Rightarrow> [])
                           else [])
           in case collect_details e rest of
                Inl x \<Rightarrow> Inl x
              | Inr others \<Rightarrow> Inr (here @ others)))"

definition details_filepath :: "ustr \<Rightarrow> ustr \<Rightarrow> ustr" where
  "details_filepath processed_data_path year_month =
     path_join (path_join processed_data_path ACTION_DETAILS_SUBFOLDER)
       (ascii ''tpo_action_details_'' @ year_month @ ascii ''_EXTRACTED.csv'')"

text \<open>
  The script as a process. Every \<open>exit()\<close> of the script is without an argument and ends
  the process with status 0; the uncaught \<open>UnboundLocalError\<close> ends it with status 1.
\<close>

definition action_details_main :: "env \<Rightarrow> ustr list \<Rightarrow> world \<Rightarrow> nat \<times> world" where
  "action_details_main e args w =
     (if no_token e then (0, w)
      else if makedirs_fails e then (1, w)
      else
        (case args of
           [actions_csv_path] \<Rightarrow>
             (case read_csv (files w) actions_csv_path of
                Inl x \<Rightarrow> (0, w)
              | Inr actions_df \<Rightarrow>
                  if empty_frame actions_df then (0, w)
                  else
                    (case map_of actions_df (ascii ''action_id'') of
                       None \<Rightarrow> (0, w)
                     | Some action_ids \<Rightarrow>
                         (case re_search payment_actions_pattern (basename actions_csv_path) of
                            None \<Rightarrow> (0, w)
                          | Some year_month \<Rightarrow>
                              (case collect_details e action_ids of
                                 Inl x \<Rightarrow> (1, w)
                               | Inr all_action_details \<Rightarrow>
                                   (0, snd (save_actions_details_to_csv e all_action_details
                                              (details_filepath (TPO_API_DATA_PATH e) year_month)
                                              w))))))
         | _ \<Rightarrow> (2, w)))"

section \<open>The payment extractor (extract\_travelpayouts\_payments.py)\<close>

text \<open>
  The pattern of the comment, compiled with \<open>re.IGNORECASE\<close>:
  the two letters U+0437 U+0430 and a space, one of the twelve month names (tried in
  the order written), \<open>\s*\<close>, and four decimal digits. A letter of the pattern matches
  a code point whose lower case it is, or whose lower case is one of the letters that
  \<open>re\<close> lists as its case variants (U+1C80 to U+1C85 for five letters used here). Among
  all code points only the capitals U+0410 to U+042F have a lower case that is a letter
  of the pattern other than themselves, so \<open>lower_cyrillic\<close> is the lower-case mapping
  as far as this pattern and its matches are concerned.
\<close>

definition lower_cyrillic :: "nat \<Rightarrow> nat" where
  "lower_cyrillic c = (if 0x410 \<le> c \<and> c \<le> 0x42F then c + 0x20 else c)"

definition ignorecase_fixes :: "nat \<Rightarrow> nat list" where
  "ignorecase_fixes c =
     (if c = 0x432 then [0x1C80] else if c = 0x434 then [0x1C81]
      else if c = 0x43E then [0x1C82] else if c = 0x441 then [0x1C83]
      else if c = 0x442 then [0x1C84, 0x1C85] else [])"

definition literal_ignorecase :: "nat \<Rightarrow> nat \<Rightarrow> bool" where
  "literal_ignorecase c x =
     (lower_cyrillic x = c \<or> lower_cyrillic x \<in> set (ignorecase_fixes c))"

text \<open>A literal at the start of the text: the rest of the text after it.\<close>

fun match_literal :: "ustr \<Rightarrow> ustr \<Rightarrow> ustr option" where
  "match_literal [] s = Some s"
| "match_literal (c # cs) [] = None"
| "match_literal (c # cs) (x # xs) =
     (if literal_ignorecase c x then match_literal cs xs else None)"

text \<open>
  \<open>\s*(\d{4})\<close> at the start of the text. No code point is both white space and a
  decimal digit, so the digits can only start where the white space ends.
\<close>

definition match_year :: "ustr \<Rightarrow> ustr option" where
  "match_year s =
     (let d = take 4 (dropWhile unicode_space s) in
      if length d = 4 \<and> list_all unicode_decimal d then Some d else None)"

definition month_dict :: "(ustr \<times> ustr) list" where
  "month_dict =
     [([0x44F, 0x43D, 0x432, 0x430, 0x440, 0x44C], ascii ''01''),
      ([0x444, 0x435, 0x432, 0x440, 0x430, 0x43B, 0x44C], ascii ''02''),
      ([0x43C, 0x430, 0x440, 0x442], ascii ''03''),
      ([0x430, 0x43F, 0x440, 0x435, 0x43B, 0x44C], ascii ''04''),
      ([0x43C, 0x430, 0x439], ascii ''05''),
      ([0x438, 0x44E, 0x43D, 0x44C], ascii ''06''),
      ([0x438, 0x44E, 0x43B, 0x44C], ascii ''07''),
      ([0x430, 0x432, 0x433, 0x443, 0x441, 0x442], ascii ''08''),
      ([0x441, 0x435, 0x43D, 0x442, 0x44F, 0x431, 0x440, 0x44C], ascii ''09''),
      ([0x43E, 0x43A, 0x442, 0x44F, 0x431, 0x440, 0x44C], ascii ''10''),
      ([0x43D, 0x43E, 0x44F, 0x431, 0x440, 0x44C], ascii ''11''),
      ([0x434, 0x435, 0x43A, 0x430, 0x431, 0x440, 0x44C], ascii ''12'')]"

text \<open>
  The alternation: the first month name, in the order of the pattern, after which the
  rest of the pattern matches. The result is the two groups: the text matched by the
  name, and the year.
\<close>

fun match_months :: "ustr list \<Rightarrow> ustr \<Rightarrow> (ustr \<times> ustr) option" where
  "match_months [] s = None"
| "match_months (m # ms) s =
     (case match_literal m s of
        None \<Rightarrow> match_months ms s
      | Some r \<Rightarrow>
          (case match_year r of
             None \<Rightarrow> match_months ms s
           | Some year \<Rightarrow> Some (take (length m) s, year)))"

definition comment_pattern :: "ustr \<Rightarrow> (ustr \<times> ustr) option" where
  "comment_pattern s =
     (case match_literal [0x437, 0x430, 0x20] s of
        None \<Rightarrow> None
      | Some r \<Rightarrow> match_months (map fst month_dict) r)"

definition extract_year_month_from_comment :: "cell \<Rightarrow> ustr option" where
  "extract_year_month_from_comment comment =
     (case comment of
        StrCell text \<Rightarrow>
          (case re_search comment_pattern text of
             None \<Rightarrow> None
           | Some (name, year) \<Rightarrow>
               (case map_of month_dict (map lower_cyrillic name) of
                  Some month \<Rightarrow> Some (year @ month)
                | None \<Rightarrow> None))
      | _ \<Rightarrow> None)"

definition payments_csv_filepath :: "ustr \<Rightarrow> ustr \<Rightarrow> ustr" where
  "payments_csv_filepath data_path year_month =
     path_join (path_join data_path PAYMENTS_SUBFOLDER)
       (ascii ''tpo_payments_'' @ year_month @ ascii ''_EXTRACTED.csv'')"

text \<open>
  The loop over the distinct periods: it writes the rows of each period to the file of
  that period and collects the metadata rows. \<open>rows\<close> are the rows that have a period,
  \<open>cs\<close> the columns of the frame. A write that raises, or a frame without the column
  \<open>payment_uuid\<close> (\<open>KeyError\<close> at the first row), ends the loop with an exception
  (\<open>None\<close>); what was written before stays.
\<close>

fun write_periods ::
    "env \<Rightarrow> ustr list \<Rightarrow> jrow list \<Rightarrow> ustr list \<Rightarrow> jrow list \<Rightarrow> world
       \<Rightarrow> jrow list option \<times> world" where
  "write_periods e cs rows [] payments_metadata w = (Some payments_metadata, w)"
| "write_periods e cs rows (year_month # rest) payments_metadata w =
     (let df_year_month =
            filter (\<lambda>r. lookup r (ascii ''year_month'') = StrCell year_month) rows;
          csv_filepath = payments_csv_filepath (TPO_API_DATA_PATH e) year_month
      in case to_csv e (frame_with cs df_year_month) csv_filepath w of
           None \<Rightarrow> (None, w)
         | Some w' \<Rightarrow>
             if ascii ''payment_uuid'' \<notin> set cs then (None, w')
             else write_periods e cs rows rest
                    (payments_metadata @
                       map (\<lambda>r. [(ascii ''year_month'', StrCell year_month),
                                  (ascii ''payment_uuid'', lookup r (ascii ''payment_uuid'')),
                                  (ascii ''filepath'', StrCell csv_filepath)]) df_year_month)
                    w')"

definition tag_row :: "jrow \<Rightarrow> jrow" where
  "tag_row r =
     AList.update (ascii ''year_month'')
       (case extract_year_month_from_comment (lookup r (ascii ''comment'')) of
          Some year_month \<Rightarrow> StrCell year_month
        | None \<Rightarrow> NaN) r"

text \<open>
  The script as a process. Its body stands in one \<open>try\<close> whose handlers log and fall
  through, and its two \<open>exit()\<close> are without an argument: the status is 0 on every path.
\<close>

definition payments_main :: "env \<Rightarrow> world \<Rightarrow> nat \<times> world" where
  "payments_main e w =
     (if no_token e then (0, w)
      else
        (case get_user_payments e of
           Json data \<Rightarrow>
             (let df = DataFrame data in
              if makedirs_fails e then (0, w)
              else if ascii ''comment'' \<notin> set (columns df) then (0, w)
              else
                (let rows = filter (\<lambda>r. lookup r (ascii ''year_month'') \<noteq> NaN) (map tag_row data);
                     cs = (if ascii ''year_month'' \<in> set (columns df) then columns df
                           else columns df @ [ascii ''year_month''])
                 in if rows = [] then (0, w)
                    else
                      (case write_periods e cs rows
                              (unique (map (\<lambda>r. render (lookup r (ascii ''year_month''))) rows))
                              [] w of
                         (None, w') \<Rightarrow> (0, w')
                       | (Some payments_metadata, w') \<Rightarrow>
                           (case to_csv e (DataFrame payments_metadata)
                                   (path_join (TPO_API_DATA_PATH e) PAYMENTS_METADATA_FILENAME) w' of
                              None \<Rightarrow> (0, w')
                            | Some w'' \<Rightarrow> (0, w'')))))
         | _ \<Rightarrow> (0, w)))"

section \<open>The orchestrator (etl\_pipeline.py)\<close>

definition extract_year_month_from_filename :: "ustr \<Rightarrow> ustr" where
  "extract_year_month_from_filename filename =
     (case re_search payments_pattern filename of
        Some year_month \<Rightarrow> year_month
      | None \<Rightarrow> [])"

text \<open>
  The subprocess \<open>python script args\<close>: its exit status and the state it leaves.
\<close>

definition python :: "env \<Rightarrow> script \<Rightarrow> ustr list \<Rightarrow> world \<Rightarrow> nat \<times> world" where
  "python e script_path args w =
     (if launch_fails e script_path args then (1, w)
      else
        (case script_path of
           EXTRACT_PAYMENTS_SCRIPT \<Rightarrow> payments_main e w
         | EXTRACT_PAYMENT_ACTIONS_SCRIPT \<Rightarrow> payment_actions_main e args w
         | EXTRACT_ACTION_DETAILS_SCRIPT \<Rightarrow> action_details_main e args w))"

text \<open>
  \<open>subprocess.run(..., check=True)\<close> raises \<open>CalledProcessError\<close> on a non-zero status
  and \<open>FileNotFoundError\<close> when there is no \<open>python\<close>; \<open>run_script\<close> returns \<open>False\<close> on
  both and \<open>True\<close> otherwise.
\<close>

definition run_script :: "env \<Rightarrow> script \<Rightarrow> ustr list \<Rightarrow> world \<Rightarrow> bool \<times> world" where
  "run_script e script_path args w =
     (if \<not> python_found e then (False, w\<lparr>trace := trace w @ [Launch script_path args False]\<rparr>)
      else
        (case python e script_path args w of
           (status, w') \<Rightarrow>
             (status = 0, w'\<lparr>trace := trace w' @ [Launch script_path args (status = 0)]\<rparr>)))"

text \<open>
  \<open>glob.glob(os.path.join(folder, "tpo_payments_*.csv"))\<close>: the files of the folder whose
  name starts with \<open>tpo_payments_\<close> and ends with \<open>.csv\<close>, in the order of the directory
  scan. (The folder name is read literally.)
\<close>

definition glob_payments :: "world \<Rightarrow> ustr \<Rightarrow> ustr list" where
  "glob_payments w folder =
     filter (\<lambda>p. let name = drop (length folder + 1) p in
                  take (length folder + 1) p = folder @ [0x2F] \<and> 0x2F \<notin> set name
                  \<and> take 13 name = ascii ''tpo_payments_'' \<and> 17 \<le> length name
                  \<and> drop (length name - 4) name = ascii ''.csv'')
       (map fst (files w))"

text \<open>The body of the loop over the payment files.\<close>

definition process_file :: "env \<Rightarrow> ustr \<Rightarrow> world \<Rightarrow> world" where
  "process_file e payments_csv_path w =
     (let w0 = w\<lparr>trace := trace w @ [Examine payments_csv_path]\<rparr>;
          filename = basename payments_csv_path
      in case re_search payments_pattern filename of
           None \<Rightarrow> w0
         | Some year_month \<Rightarrow>
             if MIN_YEAR_MONTH \<le> year_month \<and> \<not> is_period_processed e w0 year_month then
               (let actions_csv_filepath = actions_filepath (TPO_API_DATA_PATH e) year_month in
                case run_script e EXTRACT_PAYMENT_ACTIONS_SCRIPT [payments_csv_path] w0 of
                  (ok1, w1) \<Rightarrow>
                    if ok1 then
                      (case run_script e EXTRACT_ACTION_DETAILS_SCRIPT [actions_csv_filepath] w1 of
                         (ok2, w2) \<Rightarrow>
                           if ok2 then mark_period_as_processed e year_month w2 else w2)
                    else w1)
             else w0)"

definition process_files :: "env \<Rightarrow> ustr list \<Rightarrow> world \<Rightarrow> world" where
  "process_files e payments_csv_files w = foldl (\<lambda>w f. process_file e f w) w payments_csv_files"

definition discover :: "env \<Rightarrow> world \<Rightarrow> ustr list" where
  "discover e w =
     sort_key extract_year_month_from_filename
       (filter (\<lambda>f. \<not> contains (ascii ''payments_metadata'') f)
          (glob_payments w (path_join (TPO_API_DATA_PATH e) PAYMENTS_SUBFOLDER)))"

definition etl_pipeline_main :: "env \<Rightarrow> world \<Rightarrow> world" where
  "etl_pipeline_main e w =
     (case run_script e EXTRACT_PAYMENTS_SCRIPT [] w of
        (ok, w1) \<Rightarrow> if ok then process_files e (discover e w1) w1 else w1)"

section \<open>Sample environments and states\<close>

text \<open>
  An environment in which everything works and every endpoint answers with an error
  status, and the empty disk. The samples below vary them.
\<close>

definition env0 :: env where
  "env0 = \<lparr>PROCESSED_DATA_PATH = None, TRAVELPAYOUTS_API_TOKEN = Some (ascii ''token''),
     python_found = True, launch_fails = (\<lambda>s a. False), makedirs_fails = False,
     write_fails = (\<lambda>p. False), get_user_payments = HttpError 500,
     get_user_actions_affecting_payment = (\<lambda>u. HttpError 500),
     get_action_details_endpoint = (\<lambda>a. HttpError 404)\<rparr>"

definition world0 :: world where
  "world0 = \<lparr>files = [], trace = []\<rparr>"

text \<open>
  The payment file of January 2020 with one payment; a file with that name that lacks
  the column \<open>payment_uuid\<close>; a file with the right columns and a name without a
  period. The same three for the actions file.
\<close>

definition payments_202001 :: ustr where
  "payments_202001 = ascii ''data/tpo_api_data/payments/tpo_payments_202001_EXTRACTED.csv''"

definition actions_202001 :: ustr where
  "actions_202001 =
     ascii ''data/tpo_api_data/payment_actions/tpo_payment_actions_202001_EXTRACTED.csv''"

definition details_202001 :: ustr where
  "details_202001 =
     ascii ''data/tpo_api_data/action_details/tpo_action_details_202001_EXTRACTED.csv''"

definition payments_table :: table where
  "payments_table =
     [(ascii ''payment_uuid'', [ascii ''p-1'']), (ascii ''comment'', [ascii ''x'']),
      (ascii ''year_month'', [ascii ''202001''])]"

definition actions_table :: table where
  "actions_table = [(ascii ''action_id'', [ascii ''a-1''])]"

definition world_payments :: world where
  "world_payments = \<lparr>files = [(payments_202001, Csv payments_table)], trace = []\<rparr>"

definition world_no_column :: world where
  "world_no_column =
     \<lparr>files = [(payments_202001, Csv [(ascii ''comment'', [ascii ''x''])]),
               (actions_202001, Csv [(ascii ''comment'', [ascii ''x''])])], trace = []\<rparr>"

definition world_no_period :: world where
  "world_no_period =
     \<lparr>files = [(ascii ''payments.csv'', Csv payments_table),
               (ascii ''actions.csv'', Csv actions_table)], trace = []\<rparr>"

section \<open>Notions used in the statements\<close>

text \<open>
  The ledger file as it stands on disk, and the payment files that the loop of the
  orchestrator took up, in order, according to a trace.
\<close>

definition ledger :: "env \<Rightarrow> world \<Rightarrow> csv_file option" where
  "ledger e w = map_of (files w) (path_join (TPO_API_DATA_PATH e) PROCESSED_DATES_FILENAME)"

fun examined :: "event list \<Rightarrow> ustr list" where
  "examined [] = []"
| "examined (Examine f # es) = f # examined es"
| "examined (Launch s a r # es) = examined es"
| "examined (MarkProcessed p # es) = examined es"

text \<open>
  An environment in which the actions endpoint returns one action for every payment
  (and the details endpoint still answers 404).
\<close>

definition env_one_action :: env where
  "env_one_action =
     env0\<lparr>get_user_actions_affecting_payment :=
            \<lambda>u. Json (Some [[(ascii ''action_id'', StrCell (ascii ''a-1''))]])\<rparr>"

definition ledger_path0 :: ustr where
  "ledger_path0 = ascii ''data/tpo_api_data/processed_dates.csv''"

text \<open>
  A trace is gated when every call of \<open>mark_period_as_processed\<close> in it comes directly
  after a launch of the action-detail extractor on the actions file of that period that
  returned \<open>True\<close>, itself directly after a launch of the payment-action extractor, on a
  payment file of that period, that returned \<open>True\<close>.
\<close>

definition gated :: "env \<Rightarrow> event list \<Rightarrow> bool" where
  "gated e tr =
     (\<forall>i ym. i < length tr \<and> tr ! i = MarkProcessed ym \<longrightarrow>
        2 \<le> i
        \<and> tr ! (i - 1) = Launch EXTRACT_ACTION_DETAILS_SCRIPT
                           [actions_filepath (TPO_API_DATA_PATH e) ym] True
        \<and> (\<exists>f. tr ! (i - 2) = Launch EXTRACT_PAYMENT_ACTIONS_SCRIPT [f] True
                \<and> re_search payments_pattern (basename f) = Some ym))"

text \<open>
  An event is at or above the minimum when it is no downstream action on a period below
  \<open>MIN_YEAR_MONTH\<close>: a launch of the payment-action extractor is on a payment file of a
  period at or above the minimum, a launch of the action-detail extractor is on the
  actions file of such a period, and a marked period is such a period.
\<close>

definition above_minimum :: "env \<Rightarrow> event \<Rightarrow> bool" where
  "above_minimum e ev =
     (case ev of
        Launch s a r \<Rightarrow>
          (case s of
             EXTRACT_PAYMENTS_SCRIPT \<Rightarrow> True
           | EXTRACT_PAYMENT_ACTIONS_SCRIPT \<Rightarrow>
               (\<exists>f ym. a = [f] \<and> re_search payments_pattern (basename f) = Some ym
                  \<and> MIN_YEAR_MONTH \<le> ym)
           | EXTRACT_ACTION_DETAILS_SCRIPT \<Rightarrow>
               (\<exists>ym. a = [actions_filepath (TPO_API_DATA_PATH e) ym] \<and> MIN_YEAR_MONTH \<le> ym))
      | Examine f \<Rightarrow> True
      | MarkProcessed ym \<Rightarrow> MIN_YEAR_MONTH \<le> ym)"

text \<open>
  Three payment files, listed by the directory scan in the order March, January,
  February 2020, each with one payment. The actions endpoint returns one action for a
  payment, with the payment's identifier as its own. The details endpoint answers for
  every action but the one of February, where the connection fails.
\<close>

definition payments_202002 :: ustr where
  "payments_202002 = ascii ''data/tpo_api_data/payments/tpo_payments_202002_EXTRACTED.csv''"

definition payments_202003 :: ustr where
  "payments_202003 = ascii ''data/tpo_api_data/payments/tpo_payments_202003_EXTRACTED.csv''"

definition actions_202002 :: ustr where
  "actions_202002 =
     ascii ''data/tpo_api_data/payment_actions/tpo_payment_actions_202002_EXTRACTED.csv''"

definition payments_of :: "string \<Rightarrow> string \<Rightarrow> csv_file" where
  "payments_of uuid period =
     Csv [(ascii ''payment_uuid'', [ascii uuid]), (ascii ''year_month'', [ascii period])]"

definition world_three :: world where
  "world_three =
     \<lparr>files = [(payments_202003, payments_of ''p-3'' ''202003''),
               (payments_202001, payments_of ''p-1'' ''202001''),
               (payments_202002, payments_of ''p-2'' ''202002'')],
      trace = []\<rparr>"

definition env_partial :: env where
  "env_partial =
     env0\<lparr>get_user_actions_affecting_payment := \<lambda>u. Json (Some [[(ascii ''action_id'', u)]]),
          get_action_details_endpoint :=
            \<lambda>a. if a = StrCell (ascii ''p-2'') then ConnectionFailed
                 else Json \<lparr>members = [(ascii ''action_id'', a)], history = None,
                            metadata = None\<rparr>\<rparr>"

text \<open>
  A payment file of December 2017, below the minimum; and a payments folder that holds
  a file of May 2024, a file named like the metadata index, and a file whose name
  matches the search of the folder but carries no period.
\<close>

definition payments_201712 :: ustr where
  "payments_201712 = ascii ''data/tpo_api_data/payments/tpo_payments_201712_EXTRACTED.csv''"

definition world_201712 :: world where
  "world_201712 = \<lparr>files = [(payments_201712, payments_of ''p-0'' ''201712'')], trace = []\<rparr>"

definition payments_202405 :: ustr where
  "payments_202405 = ascii ''data/tpo_api_data/payments/tpo_payments_202405_EXTRACTED.csv''"

definition payments_index :: ustr where
  "payments_index = ascii ''data/tpo_api_data/payments/tpo_payments_metadata.csv''"

definition payments_other :: ustr where
  "payments_other = ascii ''data/tpo_api_data/payments/tpo_payments_backup.csv''"

definition world_folder :: world where
  "world_folder =
     \<lparr>files = [(payments_202405, payments_of ''p-5'' ''202405''),
               (payments_index, payments_of ''p-5'' ''202405''),
               (payments_other, payments_of ''p-5'' ''202405'')],
      trace = []\<rparr>"

text \<open>
  A data folder whose own name matches the pattern of the payment files, with the
  payment files of March and January 2020, listed in that order.
\<close>

definition env_named :: env where
  "env_named = env0\<lparr>PROCESSED_DATA_PATH := Some (ascii ''runs/tpo_payments_000000_EXTRACTED.csv'')\<rparr>"

definition named_202003 :: ustr where
  "named_202003 =
     ascii ''runs/tpo_payments_000000_EXTRACTED.csv/payments/tpo_payments_202003_EXTRACTED.csv''"

definition named_202001 :: ustr where
  "named_202001 =
     ascii ''runs/tpo_payments_000000_EXTRACTED.csv/payments/tpo_payments_202001_EXTRACTED.csv''"

definition world_named :: world where
  "world_named =
     \<lparr>files = [(named_202003, payments_of ''p-3'' ''202003''),
               (named_202001, payments_of ''p-1'' ''202001'')],
      trace = []\<rparr>"

text \<open>
  The comment texts of the samples, by code points: the phrase of March 2024 in small
  letters and in capitals, and a comment that names May 2023 before March 2024.
\<close>

definition za_mart_2024 :: ustr where
  "za_mart_2024 =
     [0x437, 0x430, 0x20, 0x43C, 0x430, 0x440, 0x442, 0x20, 0x32, 0x30, 0x32, 0x34]"

definition ZA_MART_2024 :: ustr where
  "ZA_MART_2024 =
     [0x417, 0x410, 0x20, 0x41C, 0x410, 0x420, 0x422, 0x20, 0x32, 0x30, 0x32, 0x34]"

definition za_mai_2023 :: ustr where
  "za_mai_2023 = [0x437, 0x430, 0x20, 0x43C, 0x430, 0x439, 0x20, 0x32, 0x30, 0x32, 0x33]"

text \<open>
  The rows that the payment extractor writes to the file of the period \<open>ym\<close>, and the
  columns of its files, for the payments \<open>data\<close>.
\<close>

definition period_rows :: "jrow list \<Rightarrow> ustr \<Rightarrow> jrow list" where
  "period_rows data ym =
     filter (\<lambda>r. lookup r (ascii ''year_month'') = StrCell ym) (map tag_row data)"

definition payments_columns :: "jrow list \<Rightarrow> ustr list" where
  "payments_columns data =
     (if ascii ''year_month'' \<in> set (columns (DataFrame data)) then columns (DataFrame data)
      else columns (DataFrame data) @ [ascii ''year_month''])"

text \<open>
  Two payments: the comment of the first names March 2024, the comment of the second
  names no month.
\<close>

definition env_comments :: env where
  "env_comments =
     env0\<lparr>get_user_payments :=
            Json [[(ascii ''payment_uuid'', StrCell (ascii ''p-1'')),
                   (ascii ''comment'', StrCell za_mart_2024)],
                  [(ascii ''payment_uuid'', StrCell (ascii ''p-2'')),
                   (ascii ''comment'', StrCell (ascii ''bonus''))]]\<rparr>"

definition payments_202403 :: ustr where
  "payments_202403 = ascii ''data/tpo_api_data/payments/tpo_payments_202403_EXTRACTED.csv''"


text \<open>
  A turn of the loop marks the period: the turn on the payment file \<open>f\<close> of the period
  \<open>ym\<close>, from the state \<open>w\<close>, runs both downstream extractors, \<open>run_script\<close> returns
  \<open>True\<close> for both, \<open>mark_period_as_processed\<close> is called for the period, and the
  ledger file is left as that call makes it.
\<close>

definition marks_period :: "env \<Rightarrow> ustr \<Rightarrow> ustr \<Rightarrow> world \<Rightarrow> bool" where
  "marks_period e f ym w =
     (trace (process_file e f w) =
        trace w @ [Examine f, Launch EXTRACT_PAYMENT_ACTIONS_SCRIPT [f] True,
                   Launch EXTRACT_ACTION_DETAILS_SCRIPT
                     [actions_filepath (TPO_API_DATA_PATH e) ym] True,
                   MarkProcessed ym]
      \<and> ledger e (process_file e f w) = ledger e (mark_period_as_processed e ym w))"

text \<open>
  An environment in which both downstream endpoints answer. The actions endpoint
  returns one action for a payment, with the payment's identifier as its own, under
  the member \<open>action_id\<close>; for the payment \<open>p-2\<close> the member is named \<open>id\<close> instead.
  Two states of the disk with the payment files of January and February 2020: in the
  first both are well formed, in the second the file of February lacks the column
  \<open>payment_uuid\<close>. And an environment without a token.
\<close>

definition env_answers :: env where
  "env_answers =
     env0\<lparr>get_user_actions_affecting_payment :=
            \<lambda>u. if u = StrCell (ascii ''p-2'') then Json (Some [[(ascii ''id'', u)]])
                 else Json (Some [[(ascii ''action_id'', u)]]),
          get_action_details_endpoint :=
            \<lambda>a. Json \<lparr>members = [(ascii ''action_id'', a)], history = None, metadata = None\<rparr>\<rparr>"

definition world_two :: world where
  "world_two =
     \<lparr>files = [(payments_202001, payments_of ''p-1'' ''202001''),
               (payments_202002, payments_of ''p-2'' ''202002'')],
      trace = []\<rparr>"

definition world_no_uuid :: world where
  "world_no_uuid =
     \<lparr>files = [(payments_202001, payments_of ''p-1'' ''202001''),
               (payments_202002, Csv [(ascii ''year_month'', [ascii ''202002''])])],
      trace = []\<rparr>"

definition env_no_token :: env where
  "env_no_token = env0\<lparr>TRAVELPAYOUTS_API_TOKEN := None\<rparr>"
section \<open>The ledger does not recognise what it recorded\<close>

lemma six_digits_int_literal:
  assumes "length p = 6" "list_all ascii_digit p"
  shows "int_literal p"
proof -
  from assms(1) obtain a b c d f g where p: "p = [a, b, c, d, f, g]"
    by (auto simp: length_Suc_conv numeral_eq_Suc)
  from assms(2) have "nat_of_digits p < 1000000"
    unfolding p by (simp add: nat_of_digits_def ascii_digit_def, arith)
  then have "nat_of_digits p < 2 ^ 63" by simp
  with assms(2) p show ?thesis by (simp add: int_literal_def)
qed

lemma map_of_update_same: "map_of (AList.update k v al) k = Some v"
  by (simp add: update_conv')

section \<open>The scripts leave the trace alone\<close>

lemma trace_to_csv: "to_csv e df p w = Some w' \<Longrightarrow> trace w' = trace w"
  by (auto simp: to_csv_def split: if_splits)

lemma trace_save_actions: "trace (snd (save_actions_to_csv e d p w)) = trace w"
  by (simp add: save_actions_to_csv_def trace_to_csv split: option.split)

lemma trace_extract_payment_actions: "trace (snd (extract_payment_actions e p w)) = trace w"
  by (simp add: extract_payment_actions_def trace_save_actions Let_def
      split: sum.split option.split)

lemma trace_payment_actions_main: "trace (snd (payment_actions_main e args w)) = trace w"
  by (simp add: payment_actions_main_def trace_extract_payment_actions split: list.split)

lemma trace_save_details: "trace (snd (save_actions_details_to_csv e d p w)) = trace w"
  by (simp add: save_actions_details_to_csv_def trace_to_csv split: option.split)

lemma trace_action_details_main: "trace (snd (action_details_main e args w)) = trace w"
  by (simp add: action_details_main_def trace_save_details
      split: list.split sum.split option.split)

lemma trace_write_periods: "trace (snd (write_periods e cs rows yms acc w)) = trace w"
  by (induction e cs rows yms acc w rule: write_periods.induct)
     (simp_all add: Let_def trace_to_csv split: option.split)

lemma trace_payments_main: "trace (snd (payments_main e w)) = trace w"
proof (cases "get_user_payments e")
  case (Json data)
  define rows where "rows = filter (\<lambda>r. lookup r (ascii ''year_month'') \<noteq> NaN) (map tag_row data)"
  define cs where "cs = (if ascii ''year_month'' \<in> set (columns (DataFrame data))
      then columns (DataFrame data) else columns (DataFrame data) @ [ascii ''year_month''])"
  define yms where "yms = unique (map (\<lambda>r. render (lookup r (ascii ''year_month''))) rows)"
  obtain r w1 where wp: "write_periods e cs rows yms [] w = (r, w1)"
    by (cases "write_periods e cs rows yms [] w")
  have w1: "trace w1 = trace w"
    using trace_write_periods [of e cs rows yms "[]" w] wp by simp
  show ?thesis
    using Json wp w1
    by (simp add: payments_main_def Let_def rows_def [symmetric] cs_def [symmetric]
        yms_def [symmetric] trace_to_csv split: option.split)
qed (simp_all add: payments_main_def)

lemma trace_python: "trace (snd (python e s args w)) = trace w"
  by (simp add: python_def trace_payments_main trace_payment_actions_main trace_action_details_main split: script.split)

lemma trace_run_script:
  "trace (snd (run_script e s args w)) = trace w @ [Launch s args (fst (run_script e s args w))]"
  using trace_python [of e s args w]
  by (auto simp: run_script_def split: prod.split)

lemma trace_mark: "trace (mark_period_as_processed e ym w) = trace w @ [MarkProcessed ym]"
  by (auto simp: mark_period_as_processed_def Let_def dest!: trace_to_csv split: sum.split option.split)

section \<open>Exit statuses and evaluation of the patterns\<close>

lemma status_payments_main: "fst (payments_main e w) = 0"
  by (auto simp: payments_main_def Let_def split: response.splits option.splits prod.splits)

lemma run_payments_fails:
  assumes "\<not> fst (run_script e EXTRACT_PAYMENTS_SCRIPT [] w)"
  shows "run_script e EXTRACT_PAYMENTS_SCRIPT [] w =
           (False, w\<lparr>trace := trace w @ [Launch EXTRACT_PAYMENTS_SCRIPT [] False]\<rparr>)"
proof (cases "python_found e")
  case False
  then show ?thesis by (simp add: run_script_def)
next
  case True
  show ?thesis
  proof (cases "launch_fails e EXTRACT_PAYMENTS_SCRIPT []")
    case True
    with \<open>python_found e\<close> show ?thesis by (simp add: run_script_def python_def)
  next
    case False
    with \<open>python_found e\<close> assms status_payments_main [of e w] show ?thesis
      by (simp add: run_script_def python_def split: prod.splits)
  qed
qed

lemma ascii_digit_decimal: "ascii_digit c \<Longrightarrow> unicode_decimal c"
  by (simp add: ascii_digit_def unicode_decimal_def decimal_runs_def)

lemma re_search_here: "m s = Some g \<Longrightarrow> re_search m s = Some g"
  by (cases s) simp_all

lemma match_digits6_here:
  "length d = 6 \<Longrightarrow> list_all unicode_decimal d \<Longrightarrow>
     match_digits6 pre suf (pre @ d @ suf @ rest) = Some d"
  by (simp add: match_digits6_def)

lemma payments_pattern_here:
  "length d = 6 \<Longrightarrow> list_all unicode_decimal d \<Longrightarrow>
     re_search payments_pattern (ascii ''tpo_payments_'' @ d @ ascii ''_EXTRACTED.csv'') = Some d"
  using match_digits6_here [of d "ascii ''tpo_payments_''" "ascii ''_EXTRACTED.csv''" "[]"]
  by (simp add: payments_pattern_def re_search_here)




lemma env0_ready: "\<not> no_token env0" "\<not> makedirs_fails env0"
  by (simp_all add: no_token_def env0_def ascii_def)

lemma read_missing: "read_csv (files world0) p = Inl FileNotFoundError"
  by (simp add: read_csv_def world0_def)

lemma read_no_column:
  "read_csv (files world_no_column) payments_202001 = Inr [(ascii ''comment'', [StrCell (ascii ''x'')])]"
  "read_csv (files world_no_column) actions_202001 = Inr [(ascii ''comment'', [StrCell (ascii ''x'')])]"
  by (simp_all add: read_csv_def world_no_column_def payments_202001_def actions_202001_def
      infer_column_def int_literal_def ascii_digit_def ascii_def)

lemma read_no_period:
  "read_csv (files world_no_period) (ascii ''payments.csv'') =
     Inr [(ascii ''payment_uuid'', [StrCell (ascii ''p-1'')]),
          (ascii ''comment'', [StrCell (ascii ''x'')]),
          (ascii ''year_month'', [IntCell 202001])]"
  "read_csv (files world_no_period) (ascii ''actions.csv'') =
     Inr [(ascii ''action_id'', [StrCell (ascii ''a-1'')])]"
  by (simp_all add: read_csv_def world_no_period_def payments_table_def actions_table_def
      infer_column_def int_literal_def ascii_digit_def nat_of_digits_def ascii_def)

lemma no_period_in_name:
  "re_search payments_pattern (basename (ascii ''payments.csv'')) = None"
  "re_search payment_actions_pattern (basename (ascii ''actions.csv'')) = None"
  by (simp_all add: basename_def payments_pattern_def payment_actions_pattern_def
      match_digits6_def ascii_def)

section \<open>What one turn of the loop adds to the trace\<close>

lemma trace_process_file:
  "\<exists>rest. trace (process_file e f w) = trace w @ Examine f # rest \<and>
     (rest = [] \<or>
      (\<exists>ym. re_search payments_pattern (basename f) = Some ym \<and> MIN_YEAR_MONTH \<le> ym \<and>
         (rest = [Launch EXTRACT_PAYMENT_ACTIONS_SCRIPT [f] False]
          \<or> rest = [Launch EXTRACT_PAYMENT_ACTIONS_SCRIPT [f] True,
                    Launch EXTRACT_ACTION_DETAILS_SCRIPT [actions_filepath (TPO_API_DATA_PATH e) ym] False]
          \<or> rest = [Launch EXTRACT_PAYMENT_ACTIONS_SCRIPT [f] True,
                    Launch EXTRACT_ACTION_DETAILS_SCRIPT [actions_filepath (TPO_API_DATA_PATH e) ym] True,
                    MarkProcessed ym])))"
proof (cases "re_search payments_pattern (basename f)")
  case None
  then show ?thesis by (simp add: process_file_def)
next
  case (Some ym)
  define w0 where "w0 = w\<lparr>trace := trace w @ [Examine f]\<rparr>"
  show ?thesis
  proof (cases "MIN_YEAR_MONTH \<le> ym \<and> \<not> is_period_processed e w0 ym")
    case False
    with Some show ?thesis by (auto simp: process_file_def w0_def)
  next
    case True
    obtain ok1 w1 where r1: "run_script e EXTRACT_PAYMENT_ACTIONS_SCRIPT [f] w0 = (ok1, w1)"
      by (cases "run_script e EXTRACT_PAYMENT_ACTIONS_SCRIPT [f] w0")
    have t1: "trace w1 = trace w @ [Examine f, Launch EXTRACT_PAYMENT_ACTIONS_SCRIPT [f] ok1]"
      using trace_run_script [of e EXTRACT_PAYMENT_ACTIONS_SCRIPT "[f]" w0] r1
      by (simp add: w0_def)
    show ?thesis
    proof (cases ok1)
      case False
      with Some True r1 t1 show ?thesis by (simp add: process_file_def w0_def [symmetric])
    next
      case ok: True
      obtain ok2 w2 where r2: "run_script e EXTRACT_ACTION_DETAILS_SCRIPT
          [actions_filepath (TPO_API_DATA_PATH e) ym] w1 = (ok2, w2)"
        by (cases "run_script e EXTRACT_ACTION_DETAILS_SCRIPT
          [actions_filepath (TPO_API_DATA_PATH e) ym] w1")
      have t2: "trace w2 = trace w1 @ [Launch EXTRACT_ACTION_DETAILS_SCRIPT
          [actions_filepath (TPO_API_DATA_PATH e) ym] ok2]"
        using trace_run_script [of e EXTRACT_ACTION_DETAILS_SCRIPT
          "[actions_filepath (TPO_API_DATA_PATH e) ym]" w1] r2 by simp
      from Some True r1 ok r2 t1 t2 show ?thesis
        by (cases ok2) (simp_all add: process_file_def w0_def [symmetric] trace_mark)
    qed
  qed
qed

lemma examined_append: "examined (xs @ ys) = examined xs @ examined ys"
  by (induction xs rule: examined.induct) simp_all

lemma examined_process_file:
  "examined (trace (process_file e f w)) = examined (trace w) @ [f]"
  using trace_process_file [of e f w] by (auto simp: examined_append)

lemma process_files_Cons: "process_files e (f # fs) w = process_files e fs (process_file e f w)"
  by (simp add: process_files_def)

lemma examined_process_files:
  "examined (trace (process_files e fs w)) = examined (trace w) @ fs"
  by (induction fs arbitrary: w) (simp_all add: process_files_def examined_process_file)

section \<open>Every run has a gated trace\<close>

lemma gated_append_chunk:
  assumes g: "gated e tr"
    and c: "rest = [] \<or>
      (\<exists>ym. re_search payments_pattern (basename f) = Some ym \<and> MIN_YEAR_MONTH \<le> ym \<and>
         (rest = [Launch EXTRACT_PAYMENT_ACTIONS_SCRIPT [f] False]
          \<or> rest = [Launch EXTRACT_PAYMENT_ACTIONS_SCRIPT [f] True,
                    Launch EXTRACT_ACTION_DETAILS_SCRIPT [actions_filepath (TPO_API_DATA_PATH e) ym] False]
          \<or> rest = [Launch EXTRACT_PAYMENT_ACTIONS_SCRIPT [f] True,
                    Launch EXTRACT_ACTION_DETAILS_SCRIPT [actions_filepath (TPO_API_DATA_PATH e) ym] True,
                    MarkProcessed ym]))"
  shows "gated e (tr @ Examine f # rest)"
  unfolding gated_def
proof (intro allI impI)
  fix i p
  assume a: "i < length (tr @ Examine f # rest) \<and> (tr @ Examine f # rest) ! i = MarkProcessed p"
  let ?goal = "2 \<le> i \<and> (tr @ Examine f # rest) ! (i - 1) =
       Launch EXTRACT_ACTION_DETAILS_SCRIPT [actions_filepath (TPO_API_DATA_PATH e) p] True \<and>
       (\<exists>f'. (tr @ Examine f # rest) ! (i - 2) = Launch EXTRACT_PAYMENT_ACTIONS_SCRIPT [f'] True \<and>
            re_search payments_pattern (basename f') = Some p)"
  show ?goal
  proof (cases "i < length tr")
    case True
    with a have m: "tr ! i = MarkProcessed p" by (simp add: nth_append)
    from g True m have "2 \<le> i \<and> tr ! (i - 1) =
       Launch EXTRACT_ACTION_DETAILS_SCRIPT [actions_filepath (TPO_API_DATA_PATH e) p] True \<and>
       (\<exists>f'. tr ! (i - 2) = Launch EXTRACT_PAYMENT_ACTIONS_SCRIPT [f'] True \<and>
            re_search payments_pattern (basename f') = Some p)"
      unfolding gated_def by blast
    moreover have "i - 1 < length tr" "i - 2 < length tr" using True by arith+
    ultimately show ?thesis by (simp add: nth_append)
  next
    case False
    then obtain j where j: "i = length tr + j" using le_Suc_ex [of "length tr" i] by auto
    from a j have jm: "j < Suc (length rest)" "(Examine f # rest) ! j = MarkProcessed p"
      by (simp_all add: nth_append)
    from c jm obtain ym where ym: "re_search payments_pattern (basename f) = Some ym"
      "rest = [Launch EXTRACT_PAYMENT_ACTIONS_SCRIPT [f] True,
                    Launch EXTRACT_ACTION_DETAILS_SCRIPT [actions_filepath (TPO_API_DATA_PATH e) ym] True,
                    MarkProcessed ym]"
      by (auto simp: nth_Cons less_Suc_eq split: nat.splits)
    from jm ym have "j = 3 \<and> p = ym"
      by (auto simp: nth_Cons less_Suc_eq numeral_eq_Suc split: nat.splits)
    with j ym show ?thesis by (simp add: nth_append numeral_eq_Suc)
  qed
qed

lemma gated_process_file: "gated e (trace w) \<Longrightarrow> gated e (trace (process_file e f w))"
  using trace_process_file [of e f w] gated_append_chunk [of e "trace w" _ f] by metis

lemma gated_process_files: "gated e (trace w) \<Longrightarrow> gated e (trace (process_files e fs w))"
  by (induction fs arbitrary: w) (simp_all add: process_files_def gated_process_file)

lemma gated_main: "trace w = [] \<Longrightarrow> gated e (trace (etl_pipeline_main e w))"
proof -
  assume t: "trace w = []"
  obtain ok w1 where r: "run_script e EXTRACT_PAYMENTS_SCRIPT [] w = (ok, w1)"
    by (cases "run_script e EXTRACT_PAYMENTS_SCRIPT [] w")
  have "trace w1 = [Launch EXTRACT_PAYMENTS_SCRIPT [] ok]"
    using trace_run_script [of e EXTRACT_PAYMENTS_SCRIPT "[]" w] r t by simp
  then have "gated e (trace w1)" by (auto simp: gated_def nth_Cons split: nat.splits)
  with r show ?thesis by (simp add: etl_pipeline_main_def gated_process_files)
qed

section \<open>A stage that reports its failure leaves the ledger alone\<close>

lemma path_join_suffix: "\<exists>pre. path_join a b = pre @ b"
  by (auto simp: path_join_def intro: exI [of _ "[]"])

lemma extracted_not_ledger:
  "p @ ascii ''_EXTRACTED.csv'' \<noteq> q @ ascii ''processed_dates.csv''"
proof
  assume "p @ ascii ''_EXTRACTED.csv'' = q @ ascii ''processed_dates.csv''"
  then have "take 5 (rev (p @ ascii ''_EXTRACTED.csv'')) = take 5 (rev (q @ ascii ''processed_dates.csv''))"
    by simp
  then show False by (simp add: ascii_def)
qed

lemma actions_filepath_not_ledger:
  "actions_filepath d ym \<noteq> path_join d' PROCESSED_DATES_FILENAME"
proof -
  obtain pre where 1: "actions_filepath d ym = pre @ ascii ''tpo_payment_actions_'' @ ym @ ascii ''_EXTRACTED.csv''"
    using path_join_suffix unfolding actions_filepath_def by blast
  obtain pre' where 2: "path_join d' PROCESSED_DATES_FILENAME = pre' @ ascii ''processed_dates.csv''"
    using path_join_suffix unfolding PROCESSED_DATES_FILENAME_def by blast
  show ?thesis
    unfolding 1 2
    using extracted_not_ledger [of "pre @ ascii ''tpo_payment_actions_'' @ ym" pre'] by simp
qed

lemma map_of_update_other: "p \<noteq> q \<Longrightarrow> map_of (AList.update p v al) q = map_of al q"
  by (simp add: update_conv')

lemma ledger_to_csv:
  "to_csv e df p w = Some w' \<Longrightarrow> p \<noteq> path_join (TPO_API_DATA_PATH e) PROCESSED_DATES_FILENAME
     \<Longrightarrow> ledger e w' = ledger e w"
  by (auto simp: to_csv_def ledger_def map_of_update_other split: if_splits)

lemma ledger_extract_payment_actions:
  "ledger e (snd (extract_payment_actions e p w)) = ledger e w"
  by (auto simp: extract_payment_actions_def save_actions_to_csv_def Let_def
      actions_filepath_not_ledger dest!: ledger_to_csv split: sum.split option.split)

lemma ledger_trace_update [simp]: "ledger e (w\<lparr>trace := t\<rparr>) = ledger e w"
  by (simp add: ledger_def)

lemma ledger_run_payment_actions:
  "ledger e (snd (run_script e EXTRACT_PAYMENT_ACTIONS_SCRIPT args w)) = ledger e w"
  by (auto simp: run_script_def python_def payment_actions_main_def ledger_extract_payment_actions
      split: prod.split list.split)

lemma python_nonzero: "fst (python e s a w) \<noteq> 0 \<Longrightarrow> snd (python e s a w) = w"
proof (cases s)
  case EXTRACT_PAYMENTS_SCRIPT
  assume "fst (python e s a w) \<noteq> 0"
  with EXTRACT_PAYMENTS_SCRIPT status_payments_main [of e w] show ?thesis
    by (simp add: python_def split: if_splits)
next
  case EXTRACT_PAYMENT_ACTIONS_SCRIPT
  assume "fst (python e s a w) \<noteq> 0"
  with EXTRACT_PAYMENT_ACTIONS_SCRIPT show ?thesis
    by (simp add: python_def payment_actions_main_def split: if_splits list.splits)
next
  case EXTRACT_ACTION_DETAILS_SCRIPT
  assume "fst (python e s a w) \<noteq> 0"
  with EXTRACT_ACTION_DETAILS_SCRIPT show ?thesis
    by (simp add: python_def action_details_main_def
        split: if_splits list.splits sum.splits option.splits)
qed

lemma run_script_False:
  "\<not> fst (run_script e s a w) \<Longrightarrow>
     run_script e s a w = (False, w\<lparr>trace := trace w @ [Launch s a False]\<rparr>)"
  using python_nonzero [of e s a w]
  by (auto simp: run_script_def split: prod.splits)

lemma process_file_failed:
  assumes ym: "re_search payments_pattern (basename f) = Some ym"
    and fail: "\<not> fst (run_script e EXTRACT_PAYMENT_ACTIONS_SCRIPT [f] (w\<lparr>trace := trace w @ [Examine f]\<rparr>))
       \<or> \<not> fst (run_script e EXTRACT_ACTION_DETAILS_SCRIPT [actions_filepath (TPO_API_DATA_PATH e) ym]
               (snd (run_script e EXTRACT_PAYMENT_ACTIONS_SCRIPT [f] (w\<lparr>trace := trace w @ [Examine f]\<rparr>))))"
  shows "ledger e (process_file e f w) = ledger e w
       \<and> (\<exists>rest. trace (process_file e f w) = trace w @ Examine f # rest \<and> MarkProcessed ym \<notin> set rest)"
proof -
  define w0 where "w0 = w\<lparr>trace := trace w @ [Examine f]\<rparr>"
  show ?thesis
  proof (cases "MIN_YEAR_MONTH \<le> ym \<and> \<not> is_period_processed e w0 ym")
    case False
    with ym show ?thesis by (auto simp: process_file_def w0_def)
  next
    case True
    obtain ok1 w1 where r1: "run_script e EXTRACT_PAYMENT_ACTIONS_SCRIPT [f] w0 = (ok1, w1)"
      by (cases "run_script e EXTRACT_PAYMENT_ACTIONS_SCRIPT [f] w0")
    have l1: "ledger e w1 = ledger e w"
      using ledger_run_payment_actions [of e "[f]" w0] r1 by (simp add: w0_def)
    have t1: "trace w1 = trace w @ [Examine f, Launch EXTRACT_PAYMENT_ACTIONS_SCRIPT [f] ok1]"
      using trace_run_script [of e EXTRACT_PAYMENT_ACTIONS_SCRIPT "[f]" w0] r1
      by (simp add: w0_def)
    show ?thesis
    proof (cases ok1)
      case False
      with ym True r1 l1 t1 show ?thesis by (simp add: process_file_def w0_def [symmetric])
    next
      case ok: True
      with fail r1 have "\<not> fst (run_script e EXTRACT_ACTION_DETAILS_SCRIPT
          [actions_filepath (TPO_API_DATA_PATH e) ym] w1)"
        by (simp add: w0_def)
      from run_script_False [OF this] ym True r1 ok l1 t1 show ?thesis
        by (simp add: process_file_def w0_def [symmetric])
    qed
  qed
qed

section \<open>Nothing is done for a period below the minimum\<close>

lemma above_chunk:
  assumes "rest = [] \<or>
      (\<exists>ym. re_search payments_pattern (basename f) = Some ym \<and> MIN_YEAR_MONTH \<le> ym \<and>
         (rest = [Launch EXTRACT_PAYMENT_ACTIONS_SCRIPT [f] False]
          \<or> rest = [Launch EXTRACT_PAYMENT_ACTIONS_SCRIPT [f] True,
                    Launch EXTRACT_ACTION_DETAILS_SCRIPT [actions_filepath (TPO_API_DATA_PATH e) ym] False]
          \<or> rest = [Launch EXTRACT_PAYMENT_ACTIONS_SCRIPT [f] True,
                    Launch EXTRACT_ACTION_DETAILS_SCRIPT [actions_filepath (TPO_API_DATA_PATH e) ym] True,
                    MarkProcessed ym]))"
  shows "list_all (above_minimum e) (Examine f # rest)"
  using assms by (auto simp: above_minimum_def)

lemma above_process_file:
  "list_all (above_minimum e) (trace w) \<Longrightarrow>
     list_all (above_minimum e) (trace (process_file e f w))"
  using trace_process_file [of e f w] above_chunk [of _ f e] by (metis list_all_append)

lemma above_process_files:
  "list_all (above_minimum e) (trace w) \<Longrightarrow>
     list_all (above_minimum e) (trace (process_files e fs w))"
  by (induction fs arbitrary: w) (simp_all add: process_files_def above_process_file)

lemma above_main:
  assumes "trace w = []"
  shows "list_all (above_minimum e) (trace (etl_pipeline_main e w))"
proof -
  obtain ok w1 where r: "run_script e EXTRACT_PAYMENTS_SCRIPT [] w = (ok, w1)"
    by (cases "run_script e EXTRACT_PAYMENTS_SCRIPT [] w")
  have "trace w1 = [Launch EXTRACT_PAYMENTS_SCRIPT [] ok]"
    using trace_run_script [of e EXTRACT_PAYMENTS_SCRIPT "[]" w] r assms by simp
  then have "list_all (above_minimum e) (trace w1)" by (simp add: above_minimum_def)
  with r show ?thesis by (simp add: etl_pipeline_main_def above_process_files)
qed

lemma path_join_inj:
  "take 1 b \<noteq> [0x2F] \<Longrightarrow> take 1 b' \<noteq> [0x2F] \<Longrightarrow> path_join a b = path_join a b' \<Longrightarrow> b = b'"
  by (auto simp: path_join_def split: if_splits)

lemma actions_filepath_inj: "actions_filepath d ym = actions_filepath d ym' \<Longrightarrow> ym = ym'"
proof -
  assume "actions_filepath d ym = actions_filepath d ym'"
  then have "ascii ''tpo_payment_actions_'' @ ym @ ascii ''_EXTRACTED.csv'' =
      ascii ''tpo_payment_actions_'' @ ym' @ ascii ''_EXTRACTED.csv''"
    unfolding actions_filepath_def
    by (rule path_join_inj [rotated 2]) (simp_all add: ascii_def)
  then show ?thesis by simp
qed

lemma discovered_not_metadata:
  "contains (ascii ''payments_metadata'') f \<Longrightarrow> f \<notin> set (discover e w)"
  by (simp add: discover_def)

section \<open>Sample runs, evaluated\<close>

lemmas run_defs =
  etl_pipeline_main_def run_script_def python_def payments_main_def no_token_def
  env_one_action_def env0_def world_payments_def discover_def glob_payments_def
  TPO_API_DATA_PATH_def path_join_def PAYMENTS_SUBFOLDER_def
  extract_year_month_from_filename_def payments_pattern_def match_digits6_def
  unicode_decimal_def decimal_runs_def process_files_def process_file_def basename_def
  MIN_YEAR_MONTH_def is_period_processed_def PROCESSED_DATES_FILENAME_def read_csv_def
  infer_column_def int_literal_def ascii_digit_def nat_of_digits_def
  actions_filepath_def PAYMENT_ACTIONS_SUBFOLDER_def payment_actions_main_def
  extract_payment_actions_def columns_def collect_actions_def get_payment_actions_def
  save_actions_to_csv_def to_csv_def DataFrame_def frame_with_def lookup_def csv_text_def
  render_def action_details_main_def empty_frame_def nrows_def payment_actions_pattern_def
  get_action_details_def save_actions_details_to_csv_def details_filepath_def
  ACTION_DETAILS_SUBFOLDER_def mark_period_as_processed_def ascii_def payments_202001_def
  payments_table_def Let_def actions_202001_def details_202001_def ledger_path0_def

lemma run_one_action:
  "etl_pipeline_main env_one_action world_payments =
     \<lparr>files = [(payments_202001, Csv payments_table),
               (actions_202001, Csv [(ascii ''action_id'', [ascii ''a-1''])]),
               (ledger_path0, Csv [(ascii ''year_month'', [ascii ''202001''])])],
      trace = [Launch EXTRACT_PAYMENTS_SCRIPT [] True, Examine payments_202001,
               Launch EXTRACT_PAYMENT_ACTIONS_SCRIPT [payments_202001] True,
               Launch EXTRACT_ACTION_DETAILS_SCRIPT [actions_202001] True,
               MarkProcessed (ascii ''202001'')]\<rparr>"
  by (simp add: run_defs)

lemmas more_defs = env_partial_def world_three_def payments_202002_def payments_202003_def
  actions_202002_def payments_of_def process_action_details_def truthy_def ledger_def
  digits_of_nat.simps concat_row_def

lemma run_partial:
  "ledger env_partial (etl_pipeline_main env_partial world_three) =
     Some (Csv [(ascii ''year_month'', [ascii ''202001'', ascii ''202003''])])"
  "trace (etl_pipeline_main env_partial world_three) =
     [Launch EXTRACT_PAYMENTS_SCRIPT [] True,
      Examine payments_202001,
      Launch EXTRACT_PAYMENT_ACTIONS_SCRIPT [payments_202001] True,
      Launch EXTRACT_ACTION_DETAILS_SCRIPT [actions_202001] True,
      MarkProcessed (ascii ''202001''),
      Examine payments_202002,
      Launch EXTRACT_PAYMENT_ACTIONS_SCRIPT [payments_202002] True,
      Launch EXTRACT_ACTION_DETAILS_SCRIPT [actions_202002] False,
      Examine payments_202003,
      Launch EXTRACT_PAYMENT_ACTIONS_SCRIPT [payments_202003] True,
      Launch EXTRACT_ACTION_DETAILS_SCRIPT
        [ascii ''data/tpo_api_data/payment_actions/tpo_payment_actions_202003_EXTRACTED.csv''] True,
      MarkProcessed (ascii ''202003'')]"
  by (simp_all add: run_defs more_defs)

lemma run_201712:
  "trace (etl_pipeline_main env_one_action world_201712) =
     [Launch EXTRACT_PAYMENTS_SCRIPT [] True, Examine payments_201712]"
  by (simp add: run_defs world_201712_def payments_201712_def payments_of_def)

lemma run_folder:
  "discover env_one_action world_folder = [payments_other, payments_202405]"
  "examined (trace (etl_pipeline_main env_one_action world_folder)) =
     [payments_other, payments_202405]"
  by (simp_all add: run_defs more_defs world_folder_def payments_202405_def payments_index_def
      payments_other_def)


lemmas fail_defs = env_answers_def world_two_def world_no_uuid_def env_no_token_def

lemma run_two:
  "ledger env_answers (process_files env_answers [payments_202001, payments_202002] world_two) =
     Some (Csv [(ascii ''year_month'', [ascii ''202001'', ascii ''202002''])])"
  "trace (process_files env_answers [payments_202001, payments_202002] world_two) =
     [Examine payments_202001,
      Launch EXTRACT_PAYMENT_ACTIONS_SCRIPT [payments_202001] True,
      Launch EXTRACT_ACTION_DETAILS_SCRIPT [actions_202001] True,
      MarkProcessed (ascii ''202001''),
      Examine payments_202002,
      Launch EXTRACT_PAYMENT_ACTIONS_SCRIPT [payments_202002] True,
      Launch EXTRACT_ACTION_DETAILS_SCRIPT [actions_202002] True,
      MarkProcessed (ascii ''202002'')]"
  by (simp_all add: run_defs more_defs fail_defs)

lemma run_no_uuid:
  "ledger env_answers (process_files env_answers [payments_202001, payments_202002] world_no_uuid) =
     Some (Csv [(ascii ''year_month'', [ascii ''202001'', ascii ''202002''])])"
  "map_of (files (process_files env_answers [payments_202001, payments_202002] world_no_uuid))
     actions_202002 = None"
  by (simp_all add: run_defs more_defs fail_defs)

lemma turn_two:
  "read_csv (files (snd (extract_payment_actions env_answers payments_202002 world_two)))
     (actions_filepath (TPO_API_DATA_PATH env_answers) (ascii ''202002'')) =
     Inr [(ascii ''id'', [StrCell (ascii ''p-2'')])]"
  "ledger env_answers (mark_period_as_processed env_answers (ascii ''202002'') world_two) =
     Some (Csv [(ascii ''year_month'', [ascii ''202002''])])"
  "\<not> is_period_processed env_answers world_two (ascii ''202002'')"
  by (simp_all add: run_defs more_defs fail_defs)

lemma turn_no_uuid:
  "\<not> fst (extract_payment_actions env_answers payments_202002 world_no_uuid)"
  "read_csv (files world_no_uuid)
     (actions_filepath (TPO_API_DATA_PATH env_answers) (ascii ''202002'')) = Inl FileNotFoundError"
  "ledger env_answers (mark_period_as_processed env_answers (ascii ''202002'') world_no_uuid) =
     Some (Csv [(ascii ''year_month'', [ascii ''202002''])])"
  "\<not> is_period_processed env_answers world_no_uuid (ascii ''202002'')"
  by (simp_all add: run_defs more_defs fail_defs)
section \<open>The order of the periods\<close>

lemma not_decimal_slash: "\<not> unicode_decimal 0x2F"
  by (simp add: unicode_decimal_def decimal_runs_def)

lemma length_literals [simp]:
  "length (ascii ''tpo_payments_'') = 13" "length (ascii ''_EXTRACTED.csv'') = 14"
  by (simp_all add: ascii_def)

lemma payments_pattern_Some:
  assumes "payments_pattern s = Some d"
  shows "take 33 s = ascii ''tpo_payments_'' @ d @ ascii ''_EXTRACTED.csv''"
    and "length d = 6" and "list_all unicode_decimal d"
proof -
  from assms have a: "take 13 s = ascii ''tpo_payments_''" and b: "take 6 (drop 13 s) = d"
    and c: "length d = 6" and e: "list_all unicode_decimal d"
    and f: "take 14 (drop 19 s) = ascii ''_EXTRACTED.csv''"
    unfolding payments_pattern_def match_digits6_def Let_def
    by (auto split: if_splits)
  have "take 33 s = take 13 s @ take 6 (drop 13 s) @ take 14 (drop 19 s)"
    using take_add [of 13 20 s] take_add [of 6 14 "drop 13 s"] by simp
  with a b f show "take 33 s = ascii ''tpo_payments_'' @ d @ ascii ''_EXTRACTED.csv''" by simp
  from c show "length d = 6" .
  from e show "list_all unicode_decimal d" .
qed

lemma payments_pattern_no_slash:
  assumes "payments_pattern s = Some d"
  shows "0x2F \<notin> set (take 33 s)" and "33 \<le> length s"
proof -
  note p = payments_pattern_Some [OF assms]
  have "0x2F \<notin> set d" using p(3) not_decimal_slash by (auto simp: list_all_iff)
  then show "0x2F \<notin> set (take 33 s)" unfolding p(1) by (simp add: ascii_def)
  have "length (take 33 s) = 33" unfolding p(1) using p(2) by (simp add: ascii_def)
  then show "33 \<le> length s" by simp
qed

lemma payments_pattern_long: "33 \<le> length a \<Longrightarrow> payments_pattern (a @ b) = payments_pattern a"
  by (simp add: payments_pattern_def match_digits6_def)

lemma payments_pattern_across_slash:
  "payments_pattern a = None \<Longrightarrow> payments_pattern (a @ 0x2F # b) = None"
proof (rule ccontr)
  assume n: "payments_pattern a = None" and "payments_pattern (a @ 0x2F # b) \<noteq> None"
  then obtain d where d: "payments_pattern (a @ 0x2F # b) = Some d" by auto
  from payments_pattern_no_slash(1) [OF d] have "33 \<le> length a"
    by (cases "33 \<le> length a") (auto simp: not_le take_Cons')
  from payments_pattern_long [OF this, of "0x2F # b"] d n show False by simp
qed

lemma re_search_None: "re_search m s = None \<Longrightarrow> m s = None"
  by (cases s) (auto split: option.splits)

lemma re_search_across_slash:
  "re_search payments_pattern a = None \<Longrightarrow>
     re_search payments_pattern (a @ 0x2F # b) = re_search payments_pattern b"
proof (induction a)
  case Nil
  have "payments_pattern (0x2F # b) = None"
    by (simp add: payments_pattern_def match_digits6_def ascii_def)
  then show ?case by simp
next
  case (Cons c cs)
  from Cons.prems have 1: "payments_pattern (c # cs) = None" and 2: "re_search payments_pattern cs = None"
    by (auto split: option.splits)
  from payments_pattern_across_slash [OF 1, of b] Cons.IH [OF 2] show ?case by simp
qed

lemma basename_in_folder:
  assumes "0x2F \<notin> set name"
  shows "basename (folder @ 0x2F # name) = name"
proof -
  have 1: "takeWhile (\<lambda>c. c \<noteq> 0x2F) (rev (folder @ 0x2F # name)) =
      takeWhile (\<lambda>c. c \<noteq> 0x2F) (rev name)"
    by (simp add: takeWhile_tail)
  have 2: "takeWhile (\<lambda>c. c \<noteq> 0x2F) (rev name) = rev name"
    using assms by (auto simp: takeWhile_eq_all_conv)
  show ?thesis unfolding basename_def 1 2 by simp
qed

lemma glob_payments_shape:
  assumes "f \<in> set (glob_payments w folder)"
  shows "\<exists>name. f = folder @ 0x2F # name \<and> 0x2F \<notin> set name"
proof -
  from assms have a: "take (length folder + 1) f = folder @ [0x2F]"
    and b: "0x2F \<notin> set (drop (length folder + 1) f)"
    by (auto simp: glob_payments_def Let_def)
  have "f = take (length folder + 1) f @ drop (length folder + 1) f" by simp
  with a have "f = folder @ 0x2F # drop (length folder + 1) f" by simp
  with b show ?thesis by blast
qed

lemma key_is_period_of_name:
  assumes "re_search payments_pattern (path_join (TPO_API_DATA_PATH e) PAYMENTS_SUBFOLDER) = None"
    and "f \<in> set (discover e w)"
  shows "extract_year_month_from_filename f = extract_year_month_from_filename (basename f)"
proof -
  from assms(2) have "f \<in> set (glob_payments w (path_join (TPO_API_DATA_PATH e) PAYMENTS_SUBFOLDER))"
    by (simp add: discover_def)
  from glob_payments_shape [OF this] obtain name where
    f: "f = path_join (TPO_API_DATA_PATH e) PAYMENTS_SUBFOLDER @ 0x2F # name" and n: "0x2F \<notin> set name"
    by blast
  show ?thesis
    unfolding f extract_year_month_from_filename_def
    by (simp add: re_search_across_slash [OF assms(1)] basename_in_folder [OF n])
qed

lemma discover_ascending:
  assumes "re_search payments_pattern (path_join (TPO_API_DATA_PATH e) PAYMENTS_SUBFOLDER) = None"
  shows "sorted (map (\<lambda>f. extract_year_month_from_filename (basename f)) (discover e w))"
proof -
  have "sorted (map extract_year_month_from_filename (discover e w))"
    by (simp add: discover_def)
  moreover have "map extract_year_month_from_filename (discover e w) =
      map (\<lambda>f. extract_year_month_from_filename (basename f)) (discover e w)"
    by (rule map_cong [OF refl]) (rule key_is_period_of_name [OF assms])
  ultimately show ?thesis by simp
qed

lemma examined_main:
  assumes "trace w = []"
  shows "examined (trace (etl_pipeline_main e w)) =
     (if fst (run_script e EXTRACT_PAYMENTS_SCRIPT [] w)
      then discover e (snd (run_script e EXTRACT_PAYMENTS_SCRIPT [] w)) else [])"
proof -
  obtain ok w1 where r: "run_script e EXTRACT_PAYMENTS_SCRIPT [] w = (ok, w1)"
    by (cases "run_script e EXTRACT_PAYMENTS_SCRIPT [] w")
  have "trace w1 = [Launch EXTRACT_PAYMENTS_SCRIPT [] ok]"
    using trace_run_script [of e EXTRACT_PAYMENTS_SCRIPT "[]" w] r assms by simp
  with r show ?thesis by (simp add: etl_pipeline_main_def examined_process_files)
qed

lemma periods_ascending:
  assumes "trace w = []"
    and "re_search payments_pattern (path_join (TPO_API_DATA_PATH e) PAYMENTS_SUBFOLDER) = None"
  shows "sorted (map (\<lambda>f. extract_year_month_from_filename (basename f))
                   (examined (trace (etl_pipeline_main e w))))"
  using discover_ascending [OF assms(2)] by (simp add: examined_main [OF assms(1)])

lemma default_folder_has_no_match:
  "PROCESSED_DATA_PATH e = None \<Longrightarrow>
     re_search payments_pattern (path_join (TPO_API_DATA_PATH e) PAYMENTS_SUBFOLDER) = None"
  by (simp add: TPO_API_DATA_PATH_def PAYMENTS_SUBFOLDER_def path_join_def payments_pattern_def
      match_digits6_def ascii_def)

section \<open>The period of a comment, and the rows of a period file\<close>

lemma re_search_skip:
  "(\<forall>i<length pre. m (drop i (pre @ s)) = None) \<Longrightarrow> re_search m (pre @ s) = re_search m s"
proof (induction pre)
  case Nil
  then show ?case by simp
next
  case (Cons c cs)
  from Cons.prems have 0: "m ((c # cs) @ s) = None" by (auto dest: spec [of _ 0])
  from Cons.prems have "\<forall>i<length cs. m (drop i (cs @ s)) = None"
    by (auto dest: spec [of _ "Suc i" for i])
  from Cons.IH [OF this] 0 show ?case by simp
qed

lemma lower_cyrillic_fixed:
  "lower_cyrillic x = 0x20 \<longleftrightarrow> x = 0x20" "lower_cyrillic x = 0x32 \<longleftrightarrow> x = 0x32"
  "lower_cyrillic x = 0x30 \<longleftrightarrow> x = 0x30" "lower_cyrillic x = 0x34 \<longleftrightarrow> x = 0x34"
  by (auto simp: lower_cyrillic_def)

lemma comment_pattern_march:
  assumes "map lower_cyrillic t = za_mart_2024"
  shows "comment_pattern (t @ post) = Some (take 4 (drop 3 t), ascii ''2024'')"
proof -
  from assms obtain c1 c2 c3 c4 c5 c6 c7 c8 c9 c10 c11 c12 where
    t: "t = [c1, c2, c3, c4, c5, c6, c7, c8, c9, c10, c11, c12]" and
    l: "lower_cyrillic c1 = 0x437" "lower_cyrillic c2 = 0x430" "lower_cyrillic c3 = 0x20"
       "lower_cyrillic c4 = 0x43C" "lower_cyrillic c5 = 0x430" "lower_cyrillic c6 = 0x440"
       "lower_cyrillic c7 = 0x442" "lower_cyrillic c8 = 0x20" "lower_cyrillic c9 = 0x32"
       "lower_cyrillic c10 = 0x30" "lower_cyrillic c11 = 0x32" "lower_cyrillic c12 = 0x34"
    by (auto simp: za_mart_2024_def map_eq_Cons_conv)
  from l have d: "c3 = 0x20" "c8 = 0x20" "c9 = 0x32" "c10 = 0x30" "c11 = 0x32" "c12 = 0x34"
    by (simp_all add: lower_cyrillic_fixed)
  show ?thesis
    unfolding t d using l(1,2,4,5,6,7)
    by (simp add: comment_pattern_def month_dict_def literal_ignorecase_def ignorecase_fixes_def
        match_year_def unicode_space_def unicode_decimal_def decimal_runs_def ascii_def
        lower_cyrillic_fixed)
qed

lemma extract_march:
  assumes t: "map lower_cyrillic t = za_mart_2024"
    and first: "\<forall>i<length pre. comment_pattern (drop i (pre @ t @ post)) = None"
  shows "extract_year_month_from_comment (StrCell (pre @ t @ post)) = Some (ascii ''202403'')"
proof -
  have "re_search comment_pattern (pre @ t @ post) = re_search comment_pattern (t @ post)"
    using first by (rule re_search_skip)
  also have "\<dots> = Some (take 4 (drop 3 t), ascii ''2024'')"
    by (rule re_search_here) (rule comment_pattern_march [OF t])
  finally have r: "re_search comment_pattern (pre @ t @ post) = Some (take 4 (drop 3 t), ascii ''2024'')" .
  have "map lower_cyrillic (take 4 (drop 3 t)) = take 4 (drop 3 (map lower_cyrillic t))"
    by (simp add: take_map drop_map)
  then have n: "map lower_cyrillic (take 4 (drop 3 t)) = [0x43C, 0x430, 0x440, 0x442]"
    by (simp add: t za_mart_2024_def)
  show ?thesis
    by (simp add: extract_year_month_from_comment_def r n month_dict_def ascii_def)
qed

lemma lookup_tag_row:
  "lookup (tag_row r) (ascii ''year_month'') =
     (case extract_year_month_from_comment (lookup r (ascii ''comment'')) of
        Some ym \<Rightarrow> StrCell ym | None \<Rightarrow> NaN)"
  by (simp add: lookup_def tag_row_def update_conv')

lemma untagged_in_no_period:
  "extract_year_month_from_comment (lookup r (ascii ''comment'')) = None \<Longrightarrow>
     tag_row r \<notin> set (period_rows data ym)"
  by (simp add: period_rows_def lookup_tag_row)

lemma files_write_periods:
  "map_of (files (snd (write_periods e cs rows yms acc w))) p = map_of (files w) p
   \<or> (\<exists>ym. p = payments_csv_filepath (TPO_API_DATA_PATH e) ym
         \<and> map_of (files (snd (write_periods e cs rows yms acc w))) p =
             Some (Csv (csv_text (frame_with cs
                (filter (\<lambda>r. lookup r (ascii ''year_month'') = StrCell ym) rows)))))"
proof (induction e cs rows yms acc w rule: write_periods.induct)
  case (1 e cs rows payments_metadata w)
  then show ?case by simp
next
  case (2 e cs rows year_month rest payments_metadata w)
  let ?df = "filter (\<lambda>r. lookup r (ascii ''year_month'') = StrCell year_month) rows"
  let ?path = "payments_csv_filepath (TPO_API_DATA_PATH e) year_month"
  show ?case
  proof (cases "write_fails e ?path")
    case True
    then show ?thesis by (simp add: to_csv_def)
  next
    case False
    define w' where "w' = w\<lparr>files := AList.update ?path (Csv (csv_text (frame_with cs ?df))) (files w)\<rparr>"
    have tc: "to_csv e (frame_with cs ?df) ?path w = Some w'"
      using False by (simp add: to_csv_def w'_def)
    have w': "map_of (files w') p = (if p = ?path then Some (Csv (csv_text (frame_with cs ?df)))
        else map_of (files w) p)"
      by (simp add: w'_def update_conv')
    show ?thesis
    proof (cases "ascii ''payment_uuid'' \<in> set cs")
      case False
      with tc w' show ?thesis by (auto simp: Let_def)
    next
      case True
      let ?acc = "payments_metadata @ map (\<lambda>r. [(ascii ''year_month'', StrCell year_month),
                (ascii ''payment_uuid'', lookup r (ascii ''payment_uuid'')),
                (ascii ''filepath'', StrCell ?path)]) ?df"
      have eq: "write_periods e cs rows (year_month # rest) payments_metadata w =
          write_periods e cs rows rest ?acc w'"
        using tc True by (simp add: Let_def)
      from "2.IH" [OF refl refl tc] True
      have ih: "map_of (files (snd (write_periods e cs rows rest ?acc w'))) p = map_of (files w') p
        \<or> (\<exists>ym. p = payments_csv_filepath (TPO_API_DATA_PATH e) ym
         \<and> map_of (files (snd (write_periods e cs rows rest ?acc w'))) p =
             Some (Csv (csv_text (frame_with cs
                (filter (\<lambda>r. lookup r (ascii ''year_month'') = StrCell ym) rows)))))"
        by simp
      define W where "W = write_periods e cs rows rest ?acc w'"
      define content where "content = (\<lambda>ym. Some (Csv (csv_text (frame_with cs
                (filter (\<lambda>r. lookup r (ascii ''year_month'') = StrCell ym) rows)))))"
      from ih have ih': "map_of (files (snd W)) p = map_of (files w') p
        \<or> (\<exists>ym. p = payments_csv_filepath (TPO_API_DATA_PATH e) ym
              \<and> map_of (files (snd W)) p = content ym)"
        by (simp only: W_def content_def)
      from w' have w'': "map_of (files w') p = (if p = ?path then content year_month
          else map_of (files w) p)"
        by (simp only: content_def)
      have "map_of (files (snd W)) p = map_of (files w) p
        \<or> (\<exists>ym. p = payments_csv_filepath (TPO_API_DATA_PATH e) ym
              \<and> map_of (files (snd W)) p = content ym)"
      proof (cases "p = ?path")
        case True
        from ih' show ?thesis
        proof
          assume "map_of (files (snd W)) p = map_of (files w') p"
          with w'' True have "p = payments_csv_filepath (TPO_API_DATA_PATH e) year_month
              \<and> map_of (files (snd W)) p = content year_month"
            by simp
          then show ?thesis by blast
        next
          assume "\<exists>ym. p = payments_csv_filepath (TPO_API_DATA_PATH e) ym
              \<and> map_of (files (snd W)) p = content ym"
          then show ?thesis by blast
        qed
      next
        case False
        with ih' w'' show ?thesis by auto
      qed
      then show ?thesis
        unfolding eq by (simp only: W_def content_def)
    qed
  qed
qed

lemma rows_of_period:
  "filter (\<lambda>r. lookup r (ascii ''year_month'') = StrCell ym)
     (filter (\<lambda>r. lookup r (ascii ''year_month'') \<noteq> NaN) (map tag_row data)) =
   period_rows data ym"
  unfolding period_rows_def by (auto intro: filter_cong)

lemma files_payments_main:
  assumes "get_user_payments e = Json data"
  shows "map_of (files (snd (payments_main e w))) p = map_of (files w) p
   \<or> p = path_join (TPO_API_DATA_PATH e) PAYMENTS_METADATA_FILENAME
   \<or> (\<exists>ym. p = payments_csv_filepath (TPO_API_DATA_PATH e) ym
         \<and> map_of (files (snd (payments_main e w))) p =
             Some (Csv (csv_text (frame_with (payments_columns data) (period_rows data ym)))))"
proof -
  define rows where "rows = filter (\<lambda>r. lookup r (ascii ''year_month'') \<noteq> NaN) (map tag_row data)"
  define yms where "yms = unique (map (\<lambda>r. render (lookup r (ascii ''year_month''))) rows)"
  define mp where "mp = path_join (TPO_API_DATA_PATH e) PAYMENTS_METADATA_FILENAME"
  obtain r w1 where wp: "write_periods e (payments_columns data) rows yms [] w = (r, w1)"
    by (cases "write_periods e (payments_columns data) rows yms [] w")
  have w1: "map_of (files w1) p = map_of (files w) p
     \<or> (\<exists>ym. p = payments_csv_filepath (TPO_API_DATA_PATH e) ym
         \<and> map_of (files w1) p =
             Some (Csv (csv_text (frame_with (payments_columns data) (period_rows data ym)))))"
    using files_write_periods [of e "payments_columns data" rows yms "[]" w p, unfolded wp snd_conv]
    unfolding rows_def rows_of_period .
  have or: "snd (payments_main e w) = w \<or> snd (payments_main e w) = w1
     \<or> (\<exists>df. snd (payments_main e w) = w1\<lparr>files := AList.update mp (Csv (csv_text df)) (files w1)\<rparr>)"
    using assms wp
    by (auto simp: payments_main_def Let_def rows_def [symmetric] yms_def [symmetric]
        payments_columns_def [symmetric] mp_def [symmetric] to_csv_def
        split: option.splits if_splits)
  show ?thesis
  proof (cases "p = mp")
    case True
    then show ?thesis by (simp add: mp_def)
  next
    case False
    from or have "map_of (files (snd (payments_main e w))) p = map_of (files w) p
       \<or> map_of (files (snd (payments_main e w))) p = map_of (files w1) p"
      using False by (auto simp: update_conv')
    with w1 show ?thesis by auto
  qed
qed

lemma no_match_before_phrase:
  "\<forall>i<length (ascii ''Payout ''). comment_pattern (drop i (ascii ''Payout '' @ ZA_MART_2024 @ ascii ''.'')) = None"
  by (simp add: ascii_def All_less_Suc ZA_MART_2024_def comment_pattern_def
      literal_ignorecase_def ignorecase_fixes_def lower_cyrillic_def)

lemma payments_comments:
  "map_of (files (snd (payments_main env_comments world0))) payments_202403 =
     Some (Csv [(ascii ''payment_uuid'', [ascii ''p-1'']), (ascii ''comment'', [za_mart_2024]),
                (ascii ''year_month'', [ascii ''202403''])])"
  by (simp add: payments_main_def env_comments_def env0_def world0_def no_token_def
      DataFrame_def frame_with_def columns_def tag_row_def lookup_def
      extract_year_month_from_comment_def comment_pattern_def month_dict_def
      literal_ignorecase_def ignorecase_fixes_def lower_cyrillic_def match_year_def
      unicode_space_def unicode_decimal_def decimal_runs_def za_mart_2024_def
      payments_csv_filepath_def TPO_API_DATA_PATH_def PAYMENTS_SUBFOLDER_def
      PAYMENTS_METADATA_FILENAME_def path_join_def to_csv_def csv_text_def render_def
      payments_202403_def Let_def ascii_def)


section \<open>Failures that the orchestrator sees, and failures that it does not see\<close>

text \<open>
  The orchestrator learns of a failure through \<open>run_script\<close> alone. When \<open>run_script\<close>
  returns \<open>False\<close> for one of the downstream extractors, the turn of the loop leaves the
  ledger file as it was and does not call \<open>mark_period_as_processed\<close>, and the loop goes
  on with the files that follow.
\<close>

lemma reported_failure_abandons_only_that_period:
  assumes "re_search payments_pattern (basename f) = Some ym"
    and "\<not> fst (run_script e EXTRACT_PAYMENT_ACTIONS_SCRIPT [f] (w\<lparr>trace := trace w @ [Examine f]\<rparr>))
       \<or> \<not> fst (run_script e EXTRACT_ACTION_DETAILS_SCRIPT [actions_filepath (TPO_API_DATA_PATH e) ym]
               (snd (run_script e EXTRACT_PAYMENT_ACTIONS_SCRIPT [f] (w\<lparr>trace := trace w @ [Examine f]\<rparr>))))"
  shows "ledger e (process_file e f w) = ledger e w
       \<and> MarkProcessed ym \<notin> set (drop (length (trace w)) (trace (process_file e f w)))
       \<and> process_files e (f # rest) w = process_files e rest (process_file e f w)
       \<and> examined (trace (process_files e (f # rest) w)) = examined (trace w) @ f # rest"
proof -
  from process_file_failed [OF assms] obtain rest' where
    l: "ledger e (process_file e f w) = ledger e w" and
    t: "trace (process_file e f w) = trace w @ Examine f # rest'" and
    m: "MarkProcessed ym \<notin> set rest'"
    by blast
  from t m have "MarkProcessed ym \<notin> set (drop (length (trace w)) (trace (process_file e f w)))"
    by simp
  with l show ?thesis
    by (simp add: process_files_Cons examined_process_files examined_process_file)
qed

text \<open>
  For the payment extractor \<open>run_script\<close> returns \<open>False\<close> only when the script did not
  start: the script itself ends with status 0 on every path. Then the run is over with
  no file changed.
\<close>

lemma payments_run_fails_iff:
  "\<not> fst (run_script e EXTRACT_PAYMENTS_SCRIPT [] w) \<longleftrightarrow>
     \<not> python_found e \<or> launch_fails e EXTRACT_PAYMENTS_SCRIPT []"
  using status_payments_main [of e w]
  by (cases "payments_main e w") (simp add: run_script_def python_def)

lemma failed_launch_aborts_run:
  assumes "\<not> fst (run_script e EXTRACT_PAYMENTS_SCRIPT [] w)"
  shows "files (etl_pipeline_main e w) = files w
       \<and> trace (etl_pipeline_main e w) = trace w @ [Launch EXTRACT_PAYMENTS_SCRIPT [] False]"
  using run_payments_fails [OF assms] by (simp add: etl_pipeline_main_def)

lemma payments_main_failed:
  assumes "no_token e \<or> get_user_payments e = ConnectionFailed
     \<or> get_user_payments e = HttpError n \<or> get_user_payments e = InvalidJson"
  shows "payments_main e w = (0, w)"
  using assms by (auto simp: payments_main_def)

lemma discover_trace: "discover e (w\<lparr>trace := t\<rparr>) = discover e w"
  by (simp add: discover_def glob_payments_def)

text \<open>
  A failure inside a downstream extractor that ends with status 0 is not seen. The
  payment-action script ends with status 0 whatever \<open>extract_payment_actions\<close> returned;
  the action-detail script ends with status 0 when it cannot read the actions file or
  finds no column \<open>action_id\<close> in it. The turn then goes through to the mark.
\<close>

lemma failed_extract_unchanged:
  "\<not> fst (extract_payment_actions e f w) \<Longrightarrow> snd (extract_payment_actions e f w) = w"
  by (simp add: extract_payment_actions_def Let_def split: sum.splits option.splits if_splits)

lemma is_period_processed_trace:
  "is_period_processed e (w\<lparr>trace := t\<rparr>) ym = is_period_processed e w ym"
  by (simp add: is_period_processed_def)

lemma ledger_mark_cong:
  "ledger e w = ledger e w' \<Longrightarrow>
     ledger e (mark_period_as_processed e ym w) = ledger e (mark_period_as_processed e ym w')"
  by (simp add: mark_period_as_processed_def Let_def ledger_def read_csv_def to_csv_def
      map_of_update_same split: option.split csv_file.split)

lemma files_extract_trace:
  "files (snd (extract_payment_actions e f (w\<lparr>trace := t\<rparr>))) =
     files (snd (extract_payment_actions e f w))"
  by (simp add: extract_payment_actions_def save_actions_to_csv_def to_csv_def Let_def
      split: sum.split option.split)

lemma turn_with_unseen_failure:
  assumes env: "python_found e"
      "\<not> launch_fails e EXTRACT_PAYMENT_ACTIONS_SCRIPT [f]"
      "\<not> launch_fails e EXTRACT_ACTION_DETAILS_SCRIPT [actions_filepath (TPO_API_DATA_PATH e) ym]"
      "\<not> no_token e" "\<not> makedirs_fails e"
    and ym: "re_search payments_pattern (basename f) = Some ym" "MIN_YEAR_MONTH \<le> ym"
      "\<not> is_period_processed e w ym"
    and fail: "read_csv (files (snd (extract_payment_actions e f w)))
                 (actions_filepath (TPO_API_DATA_PATH e) ym) = Inl x
       \<or> read_csv (files (snd (extract_payment_actions e f w)))
                 (actions_filepath (TPO_API_DATA_PATH e) ym) = Inr df
          \<and> map_of df (ascii ''action_id'') = None"
  shows "marks_period e f ym w"
proof -
  define A where "A = actions_filepath (TPO_API_DATA_PATH e) ym"
  define w0 where "w0 = w\<lparr>trace := trace w @ [Examine f]\<rparr>"
  define x1 where "x1 = snd (extract_payment_actions e f w0)"
  define w1 where "w1 = x1\<lparr>trace := trace x1 @ [Launch EXTRACT_PAYMENT_ACTIONS_SCRIPT [f] True]\<rparr>"
  define w2 where "w2 = w1\<lparr>trace := trace w1 @ [Launch EXTRACT_ACTION_DETAILS_SCRIPT [A] True]\<rparr>"
  have r1: "run_script e EXTRACT_PAYMENT_ACTIONS_SCRIPT [f] w0 = (True, w1)"
    using env by (simp add: run_script_def python_def payment_actions_main_def w1_def x1_def)
  have f1: "files w1 = files (snd (extract_payment_actions e f w))"
    by (simp add: w1_def x1_def w0_def files_extract_trace)
  have ad: "action_details_main e [A] w1 = (0, w1)"
    using env fail by (auto simp: action_details_main_def f1 A_def)
  have r2: "run_script e EXTRACT_ACTION_DETAILS_SCRIPT [A] w1 = (True, w2)"
    using env ad by (simp add: run_script_def python_def w2_def A_def)
  have p0: "\<not> is_period_processed e w0 ym"
    using ym by (simp add: w0_def is_period_processed_trace)
  have pf: "process_file e f w = mark_period_as_processed e ym w2"
    using ym p0 r1 r2
    by (simp add: process_file_def w0_def [symmetric] A_def [symmetric])
  have t: "trace w2 = trace w @ [Examine f, Launch EXTRACT_PAYMENT_ACTIONS_SCRIPT [f] True,
      Launch EXTRACT_ACTION_DETAILS_SCRIPT [A] True]"
    by (simp add: w2_def w1_def x1_def trace_extract_payment_actions w0_def)
  have l: "ledger e w2 = ledger e w"
    by (simp add: w2_def w1_def x1_def ledger_extract_payment_actions w0_def)
  show ?thesis
    unfolding marks_period_def pf
    using t ledger_mark_cong [OF l] by (simp add: trace_mark A_def)
qed

lemma env_answers_ready:
  "python_found env_answers" "\<not> launch_fails env_answers s a"
  "\<not> no_token env_answers" "\<not> makedirs_fails env_answers"
  by (simp_all add: env_answers_def env0_def no_token_def ascii_def)

lemma period_payments_202002:
  "re_search payments_pattern (basename payments_202002) = Some (ascii ''202002'')"
  "MIN_YEAR_MONTH \<le> ascii ''202002''"
  by (simp_all add: basename_def payments_202002_def payments_pattern_def match_digits6_def
      unicode_decimal_def decimal_runs_def ascii_def MIN_YEAR_MONTH_def)
text \<open>
  Claim C5, where the code departs from it. The claim: \<open>is_period_processed p\<close> is true
  exactly when \<open>p\<close> was passed to \<open>mark_period_as_processed\<close> before. The code: a period
  of six digits 0 to 9 that is marked when there is no ledger file is written as the
  only field of the column, read back as an integer, and not recognised as processed.
\<close>

theorem marked_period_not_recognised:
  assumes absent:
      "map_of (files w) (path_join (TPO_API_DATA_PATH e) PROCESSED_DATES_FILENAME) = None"
    and p: "length p = 6" "list_all ascii_digit p"
  shows "\<not> is_period_processed e (mark_period_as_processed e p w) p"
proof (cases "write_fails e (path_join (TPO_API_DATA_PATH e) PROCESSED_DATES_FILENAME)")
  case True
  with absent show ?thesis
    by (simp add: is_period_processed_def mark_period_as_processed_def to_csv_def)
next
  case False
  have "infer_column [p] = [IntCell (int (nat_of_digits p))]"
    using six_digits_int_literal [OF p] by (simp add: infer_column_def)
  with False absent show ?thesis
    by (simp add: is_period_processed_def mark_period_as_processed_def to_csv_def
        map_of_update_same read_csv_def csv_text_def render_def)
qed

theorem marked_period_not_recognised_witness:
  "\<not> is_period_processed env0 (mark_period_as_processed env0 (ascii ''202001'') world0)
       (ascii ''202001'')"
  using marked_period_not_recognised [of world0 env0 "ascii ''202001''"]
  by (simp add: world0_def ascii_def ascii_digit_def)


text \<open>
  Claim C4, where the code departs from it. The claim: when the initial run of the
  payment extractor fails, the run of the orchestrator is over, with no discovery of
  periods, no downstream extractor run and the ledger as it was. The code: whenever the
  script starts, \<open>run_script\<close> returns \<open>True\<close> for it, whatever happened inside; and when
  the extractor fails for want of a token, or because the call of the payments endpoint
  fails (no connection, an error status \<open>n\<close>, a body that is not JSON), it writes
  nothing and the orchestrator goes on with the loop over the payment files that are
  on disk.
\<close>

theorem payment_extractor_failure_does_not_abort:
  assumes "python_found e" and "\<not> launch_fails e EXTRACT_PAYMENTS_SCRIPT []"
  shows "fst (run_script e EXTRACT_PAYMENTS_SCRIPT [] w)
       \<and> (no_token e \<or> get_user_payments e = ConnectionFailed
            \<or> get_user_payments e = HttpError n \<or> get_user_payments e = InvalidJson
          \<longrightarrow> etl_pipeline_main e w =
                process_files e (discover e w)
                  (w\<lparr>trace := trace w @ [Launch EXTRACT_PAYMENTS_SCRIPT [] True]\<rparr>))"
proof (intro conjI impI)
  show "fst (run_script e EXTRACT_PAYMENTS_SCRIPT [] w)"
    using assms status_payments_main [of e w]
    by (cases "payments_main e w") (simp add: run_script_def python_def)
next
  assume "no_token e \<or> get_user_payments e = ConnectionFailed
     \<or> get_user_payments e = HttpError n \<or> get_user_payments e = InvalidJson"
  from payments_main_failed [OF this] assms
  show "etl_pipeline_main e w =
      process_files e (discover e w) (w\<lparr>trace := trace w @ [Launch EXTRACT_PAYMENTS_SCRIPT [] True]\<rparr>)"
    by (simp add: etl_pipeline_main_def run_script_def python_def discover_trace)
qed

text \<open>
  The samples, with the payment file of January 2020 on disk from an earlier run and no
  ledger. In the first the payments endpoint answers with status 500, in the second
  there is no token. In both the file is discovered, both downstream extractors are
  run, the period is marked and the ledger is written.
\<close>

theorem payment_extractor_failure_does_not_abort_witness:
  "get_user_payments env_one_action = HttpError 500
   \<and> discover env_one_action world_payments = [payments_202001]
   \<and> ledger env_one_action world_payments = None
   \<and> trace (etl_pipeline_main env_one_action world_payments) =
       [Launch EXTRACT_PAYMENTS_SCRIPT [] True, Examine payments_202001,
        Launch EXTRACT_PAYMENT_ACTIONS_SCRIPT [payments_202001] True,
        Launch EXTRACT_ACTION_DETAILS_SCRIPT [actions_202001] True,
        MarkProcessed (ascii ''202001'')]
   \<and> ledger env_one_action (etl_pipeline_main env_one_action world_payments) =
       Some (Csv [(ascii ''year_month'', [ascii ''202001''])])
   \<and> no_token env_no_token
   \<and> trace (etl_pipeline_main env_no_token world_payments) =
       [Launch EXTRACT_PAYMENTS_SCRIPT [] True, Examine payments_202001,
        Launch EXTRACT_PAYMENT_ACTIONS_SCRIPT [payments_202001] True,
        Launch EXTRACT_ACTION_DETAILS_SCRIPT [actions_202001] True,
        MarkProcessed (ascii ''202001'')]
   \<and> ledger env_no_token (etl_pipeline_main env_no_token world_payments) =
       Some (Csv [(ascii ''year_month'', [ascii ''202001''])])"
proof -
  have r: "python_found env_one_action" "\<not> launch_fails env_one_action EXTRACT_PAYMENTS_SCRIPT []"
    "python_found env_no_token" "\<not> launch_fails env_no_token EXTRACT_PAYMENTS_SCRIPT []"
    by (simp_all add: env_one_action_def env_no_token_def env0_def)
  have h: "get_user_payments env_one_action = HttpError 500"
    by (simp add: env_one_action_def env0_def)
  have k: "no_token env_no_token"
    by (simp add: env_no_token_def env0_def no_token_def)
  have d: "discover env_one_action world_payments = [payments_202001]"
    "discover env_no_token world_payments = [payments_202001]"
    by (simp_all add: run_defs env_no_token_def)
  have l: "ledger env_one_action world_payments = None"
    by (simp add: run_defs ledger_def)
  have 1: "etl_pipeline_main env_one_action world_payments =
      process_files env_one_action [payments_202001]
        (world_payments\<lparr>trace := trace world_payments @ [Launch EXTRACT_PAYMENTS_SCRIPT [] True]\<rparr>)"
    using payment_extractor_failure_does_not_abort [OF r(1) r(2), of world_payments 500] h d(1)
    by simp
  have 2: "etl_pipeline_main env_no_token world_payments =
      process_files env_no_token [payments_202001]
        (world_payments\<lparr>trace := trace world_payments @ [Launch EXTRACT_PAYMENTS_SCRIPT [] True]\<rparr>)"
    using payment_extractor_failure_does_not_abort [OF r(3) r(4), of world_payments] k d(2)
    by simp
  have 3: "trace (process_files env_one_action [payments_202001]
        (world_payments\<lparr>trace := trace world_payments @ [Launch EXTRACT_PAYMENTS_SCRIPT [] True]\<rparr>)) =
       [Launch EXTRACT_PAYMENTS_SCRIPT [] True, Examine payments_202001,
        Launch EXTRACT_PAYMENT_ACTIONS_SCRIPT [payments_202001] True,
        Launch EXTRACT_ACTION_DETAILS_SCRIPT [actions_202001] True,
        MarkProcessed (ascii ''202001'')]"
    "ledger env_one_action (process_files env_one_action [payments_202001]
        (world_payments\<lparr>trace := trace world_payments @ [Launch EXTRACT_PAYMENTS_SCRIPT [] True]\<rparr>)) =
       Some (Csv [(ascii ''year_month'', [ascii ''202001''])])"
    by (simp_all add: run_defs ledger_def)
  have 4: "trace (process_files env_no_token [payments_202001]
        (world_payments\<lparr>trace := trace world_payments @ [Launch EXTRACT_PAYMENTS_SCRIPT [] True]\<rparr>)) =
       [Launch EXTRACT_PAYMENTS_SCRIPT [] True, Examine payments_202001,
        Launch EXTRACT_PAYMENT_ACTIONS_SCRIPT [payments_202001] True,
        Launch EXTRACT_ACTION_DETAILS_SCRIPT [actions_202001] True,
        MarkProcessed (ascii ''202001'')]"
    "ledger env_no_token (process_files env_no_token [payments_202001]
        (world_payments\<lparr>trace := trace world_payments @ [Launch EXTRACT_PAYMENTS_SCRIPT [] True]\<rparr>)) =
       Some (Csv [(ascii ''year_month'', [ascii ''202001''])])"
    by (simp_all add: run_defs ledger_def env_no_token_def)
  from h d(1) l 3 [folded 1] k 4 [folded 2] show ?thesis by blast
qed


text \<open>
  Claim C2, where the code departs from it. The claim: each extractor exits with a
  non-zero status when its input file is not found, lacks a required column, or has no
  period in its name. The code: with a token and the folders in place, both downstream
  extractors end with status 0 in each of these cases, and leave the disk as it was.
  (\<open>x\<close> is the exception of the failed read, \<open>FileNotFoundError\<close> among them.)
\<close>

theorem extractors_exit_zero_on_failure:
  assumes "\<not> no_token e" "\<not> makedirs_fails e"
  shows "(read_csv (files w) p = Inl x \<longrightarrow>
            payment_actions_main e [p] w = (0, w) \<and> action_details_main e [p] w = (0, w))
       \<and> (read_csv (files w) p = Inr df
            \<and> (map_of df (ascii ''payment_uuid'') = None \<or> ascii ''year_month'' \<notin> set (columns df))
            \<longrightarrow> payment_actions_main e [p] w = (0, w))
       \<and> (read_csv (files w) p = Inr df \<and> re_search payments_pattern (basename p) = None
            \<longrightarrow> payment_actions_main e [p] w = (0, w))
       \<and> (read_csv (files w) p = Inr df \<and> map_of df (ascii ''action_id'') = None
            \<longrightarrow> action_details_main e [p] w = (0, w))
       \<and> (read_csv (files w) p = Inr df \<and> re_search payment_actions_pattern (basename p) = None
            \<longrightarrow> action_details_main e [p] w = (0, w))"
  using assms
  by (simp add: payment_actions_main_def extract_payment_actions_def action_details_main_def
      split: option.split)

theorem extractors_exit_zero_on_failure_witness:
  "payment_actions_main env0 [payments_202001] world0 = (0, world0)
   \<and> action_details_main env0 [actions_202001] world0 = (0, world0)
   \<and> payment_actions_main env0 [payments_202001] world_no_column = (0, world_no_column)
   \<and> action_details_main env0 [actions_202001] world_no_column = (0, world_no_column)
   \<and> payment_actions_main env0 [ascii ''payments.csv''] world_no_period = (0, world_no_period)
   \<and> action_details_main env0 [ascii ''actions.csv''] world_no_period = (0, world_no_period)"
proof -
  note t = extractors_exit_zero_on_failure [OF env0_ready]
  have 1: "payment_actions_main env0 [payments_202001] world0 = (0, world0)"
    using t [where w = world0 and p = payments_202001 and x = FileNotFoundError]
    by (simp add: read_missing)
  have 2: "action_details_main env0 [actions_202001] world0 = (0, world0)"
    using t [where w = world0 and p = actions_202001 and x = FileNotFoundError]
    by (simp add: read_missing)
  have 3: "payment_actions_main env0 [payments_202001] world_no_column = (0, world_no_column)"
    using t [where w = world_no_column and p = payments_202001
        and df = "[(ascii ''comment'', [StrCell (ascii ''x'')])]"]
      read_no_column
    by (simp add: ascii_def columns_def)
  have 4: "action_details_main env0 [actions_202001] world_no_column = (0, world_no_column)"
    using t [where w = world_no_column and p = actions_202001
        and df = "[(ascii ''comment'', [StrCell (ascii ''x'')])]"]
      read_no_column
    by (simp add: ascii_def columns_def)
  have 5: "payment_actions_main env0 [ascii ''payments.csv''] world_no_period = (0, world_no_period)"
    using t [where w = world_no_period and p = "ascii ''payments.csv''"
        and df = "[(ascii ''payment_uuid'', [StrCell (ascii ''p-1'')]),
          (ascii ''comment'', [StrCell (ascii ''x'')]),
          (ascii ''year_month'', [IntCell 202001])]"]
      read_no_period no_period_in_name
    by (simp add: ascii_def columns_def)
  have 6: "action_details_main env0 [ascii ''actions.csv''] world_no_period = (0, world_no_period)"
    using t [where w = world_no_period and p = "ascii ''actions.csv''"
        and df = "[(ascii ''action_id'', [StrCell (ascii ''a-1'')])]"]
      read_no_period no_period_in_name
    by (simp add: ascii_def columns_def)
  from 1 2 3 4 5 6 show ?thesis by simp
qed

text \<open>
  Claim C1, as amended. The claim: \<open>mark_processed(period)\<close> is called only after both
  downstream extractors of the period reported success, and no period is marked while a
  downstream artifact is missing. The first half holds: in the trace of a run, every
  call of \<open>mark_period_as_processed\<close> stands directly after a launch of the
  action-detail extractor on the actions file of the period that returned \<open>True\<close>, which
  stands directly after a launch of the payment-action extractor, on a payment file of
  that period, that returned \<open>True\<close>. A launch returns \<open>True\<close> when the process ends with
  status 0, which does not say that the artifact was written.
\<close>

theorem mark_only_after_both_stages_exit_zero:
  assumes "trace w = []"
    and "i < length (trace (etl_pipeline_main e w))"
    and "trace (etl_pipeline_main e w) ! i = MarkProcessed ym"
  shows "2 \<le> i
       \<and> trace (etl_pipeline_main e w) ! (i - 1) =
           Launch EXTRACT_ACTION_DETAILS_SCRIPT [actions_filepath (TPO_API_DATA_PATH e) ym] True
       \<and> (\<exists>f. trace (etl_pipeline_main e w) ! (i - 2) =
                 Launch EXTRACT_PAYMENT_ACTIONS_SCRIPT [f] True
              \<and> re_search payments_pattern (basename f) = Some ym)"
  using gated_main [OF assms(1), of e] assms(2,3) unfolding gated_def by blast

theorem mark_only_after_both_stages_exit_zero_witness:
  "trace world_payments = []
   \<and> 4 < length (trace (etl_pipeline_main env_one_action world_payments))
   \<and> trace (etl_pipeline_main env_one_action world_payments) ! 4 = MarkProcessed (ascii ''202001'')
   \<and> trace (etl_pipeline_main env_one_action world_payments) ! 3 =
        Launch EXTRACT_ACTION_DETAILS_SCRIPT
          [actions_filepath (TPO_API_DATA_PATH env_one_action) (ascii ''202001'')] True
   \<and> trace (etl_pipeline_main env_one_action world_payments) ! 2 =
        Launch EXTRACT_PAYMENT_ACTIONS_SCRIPT [payments_202001] True"
proof -
  have t: "trace world_payments = []" by (simp add: world_payments_def)
  have m: "trace (etl_pipeline_main env_one_action world_payments) ! 4 =
      MarkProcessed (ascii ''202001'')"
    by (simp add: run_one_action)
  have n: "4 < length (trace (etl_pipeline_main env_one_action world_payments))"
    by (simp add: run_one_action)
  from mark_only_after_both_stages_exit_zero [OF t n m] t n m show ?thesis
    by (simp add: run_one_action)
qed

text \<open>
  The second half of claim C1 fails. One payment of January 2020, one action for it, and
  a details endpoint that answers 404: the action-detail extractor omits the action,
  has nothing to save, writes no file and ends with status 0. The period is marked and
  stands in the ledger, and there is no action-details file for it.
\<close>

theorem marked_without_details_file:
  "MarkProcessed (ascii ''202001'') \<in> set (trace (etl_pipeline_main env_one_action world_payments))
   \<and> ledger env_one_action (etl_pipeline_main env_one_action world_payments) =
        Some (Csv [(ascii ''year_month'', [ascii ''202001''])])
   \<and> map_of (files (etl_pipeline_main env_one_action world_payments))
        (details_filepath (TPO_API_DATA_PATH env_one_action) (ascii ''202001'')) = None"
  by (simp add: run_one_action)
     (simp add: ledger_def details_filepath_def path_join_def TPO_API_DATA_PATH_def
        env_one_action_def env0_def PROCESSED_DATES_FILENAME_def ACTION_DETAILS_SUBFOLDER_def
        payments_202001_def actions_202001_def ledger_path0_def ascii_def)


text \<open>
  Claim C3, where the code departs from it. The claim: when a downstream stage fails
  for a period, the period is not added to the ledger. The code: with the interpreter
  and the token in place, take the payment file \<open>f\<close> of a period \<open>ym\<close> at or above the
  minimum that the ledger does not recognise. If \<open>extract_payment_actions\<close> returns
  \<open>False\<close> and no actions file of the period can be read; or if, after the
  payment-action stage, the action-detail extractor cannot read the actions file (file
  not found among the causes, \<open>x\<close> is the exception of the read); or if the actions
  file has no column \<open>action_id\<close>: then \<open>run_script\<close> returns \<open>True\<close> for both stages,
  \<open>mark_period_as_processed\<close> is called for the period, and the ledger file is what
  that call makes of it.
\<close>

theorem failed_stage_period_is_marked:
  assumes "python_found e"
    and "\<not> launch_fails e EXTRACT_PAYMENT_ACTIONS_SCRIPT [f]"
    and "\<not> launch_fails e EXTRACT_ACTION_DETAILS_SCRIPT [actions_filepath (TPO_API_DATA_PATH e) ym]"
    and "\<not> no_token e" and "\<not> makedirs_fails e"
    and "re_search payments_pattern (basename f) = Some ym" and "MIN_YEAR_MONTH \<le> ym"
    and "\<not> is_period_processed e w ym"
  shows "(\<not> fst (extract_payment_actions e f w)
            \<and> read_csv (files w) (actions_filepath (TPO_API_DATA_PATH e) ym) = Inl x
          \<longrightarrow> marks_period e f ym w)
       \<and> (read_csv (files (snd (extract_payment_actions e f w)))
              (actions_filepath (TPO_API_DATA_PATH e) ym) = Inl x
          \<longrightarrow> marks_period e f ym w)
       \<and> (read_csv (files (snd (extract_payment_actions e f w)))
              (actions_filepath (TPO_API_DATA_PATH e) ym) = Inr df
            \<and> map_of df (ascii ''action_id'') = None
          \<longrightarrow> marks_period e f ym w)"
proof (intro conjI impI)
  assume a: "\<not> fst (extract_payment_actions e f w)
    \<and> read_csv (files w) (actions_filepath (TPO_API_DATA_PATH e) ym) = Inl x"
  then have "read_csv (files (snd (extract_payment_actions e f w)))
      (actions_filepath (TPO_API_DATA_PATH e) ym) = Inl x"
    by (simp add: failed_extract_unchanged)
  then show "marks_period e f ym w"
    using turn_with_unseen_failure [OF assms] by blast
next
  assume "read_csv (files (snd (extract_payment_actions e f w)))
      (actions_filepath (TPO_API_DATA_PATH e) ym) = Inl x"
  then show "marks_period e f ym w"
    using turn_with_unseen_failure [OF assms] by blast
next
  assume "read_csv (files (snd (extract_payment_actions e f w)))
      (actions_filepath (TPO_API_DATA_PATH e) ym) = Inr df
    \<and> map_of df (ascii ''action_id'') = None"
  then show "marks_period e f ym w"
    using turn_with_unseen_failure [OF assms] by blast
qed

text \<open>
  The samples, for February 2020. In the first the payment file lacks the column
  \<open>payment_uuid\<close>: the payment-action stage fails, no actions file exists, and the
  period is marked. In the second the actions file is written with the column \<open>id\<close>
  and without \<open>action_id\<close>: the action-detail stage fails, and the period is marked.
  In both, the loop over the files of January and February leaves a ledger that holds
  202001 and 202002.
\<close>

theorem failed_stage_period_is_marked_witness:
  "\<not> fst (extract_payment_actions env_answers payments_202002 world_no_uuid)
   \<and> read_csv (files world_no_uuid) actions_202002 = Inl FileNotFoundError
   \<and> trace (process_file env_answers payments_202002 world_no_uuid) =
       [Examine payments_202002,
        Launch EXTRACT_PAYMENT_ACTIONS_SCRIPT [payments_202002] True,
        Launch EXTRACT_ACTION_DETAILS_SCRIPT [actions_202002] True,
        MarkProcessed (ascii ''202002'')]
   \<and> ledger env_answers (process_file env_answers payments_202002 world_no_uuid) =
       Some (Csv [(ascii ''year_month'', [ascii ''202002''])])
   \<and> read_csv (files (snd (extract_payment_actions env_answers payments_202002 world_two)))
       actions_202002 = Inr [(ascii ''id'', [StrCell (ascii ''p-2'')])]
   \<and> trace (process_file env_answers payments_202002 world_two) =
       [Examine payments_202002,
        Launch EXTRACT_PAYMENT_ACTIONS_SCRIPT [payments_202002] True,
        Launch EXTRACT_ACTION_DETAILS_SCRIPT [actions_202002] True,
        MarkProcessed (ascii ''202002'')]
   \<and> ledger env_answers (process_file env_answers payments_202002 world_two) =
       Some (Csv [(ascii ''year_month'', [ascii ''202002''])])
   \<and> ledger env_answers (process_files env_answers [payments_202001, payments_202002] world_two) =
       Some (Csv [(ascii ''year_month'', [ascii ''202001'', ascii ''202002''])])
   \<and> ledger env_answers (process_files env_answers [payments_202001, payments_202002] world_no_uuid) =
       Some (Csv [(ascii ''year_month'', [ascii ''202001'', ascii ''202002''])])"
proof -
  have A: "actions_filepath (TPO_API_DATA_PATH env_answers) (ascii ''202002'') = actions_202002"
    by (simp add: actions_filepath_def TPO_API_DATA_PATH_def env_answers_def env0_def
        path_join_def PAYMENT_ACTIONS_SUBFOLDER_def actions_202002_def ascii_def)
  note n = failed_stage_period_is_marked [OF env_answers_ready(1) env_answers_ready(2)
      env_answers_ready(2) env_answers_ready(3) env_answers_ready(4) period_payments_202002
      turn_no_uuid(4), where x = FileNotFoundError]
  note t = failed_stage_period_is_marked [OF env_answers_ready(1) env_answers_ready(2)
      env_answers_ready(2) env_answers_ready(3) env_answers_ready(4) period_payments_202002
      turn_two(3), where df = "[(ascii ''id'', [StrCell (ascii ''p-2'')])]"]
  have 1: "marks_period env_answers payments_202002 (ascii ''202002'') world_no_uuid"
    using n turn_no_uuid(1) turn_no_uuid(2) by blast
  have i: "map_of [(ascii ''id'', [StrCell (ascii ''p-2'')])] (ascii ''action_id'') = None"
    by (simp add: ascii_def)
  have 2: "marks_period env_answers payments_202002 (ascii ''202002'') world_two"
    using t turn_two(1) i by blast
  from 1 have 3: "trace (process_file env_answers payments_202002 world_no_uuid) =
       [Examine payments_202002,
        Launch EXTRACT_PAYMENT_ACTIONS_SCRIPT [payments_202002] True,
        Launch EXTRACT_ACTION_DETAILS_SCRIPT [actions_202002] True,
        MarkProcessed (ascii ''202002'')]"
    and 4: "ledger env_answers (process_file env_answers payments_202002 world_no_uuid) =
       Some (Csv [(ascii ''year_month'', [ascii ''202002''])])"
    unfolding marks_period_def A turn_no_uuid(3) by (simp_all add: world_no_uuid_def)
  from 2 have 5: "trace (process_file env_answers payments_202002 world_two) =
       [Examine payments_202002,
        Launch EXTRACT_PAYMENT_ACTIONS_SCRIPT [payments_202002] True,
        Launch EXTRACT_ACTION_DETAILS_SCRIPT [actions_202002] True,
        MarkProcessed (ascii ''202002'')]"
    and 6: "ledger env_answers (process_file env_answers payments_202002 world_two) =
       Some (Csv [(ascii ''year_month'', [ascii ''202002''])])"
    unfolding marks_period_def A turn_two(2) by (simp_all add: world_two_def)
  from turn_no_uuid(1) turn_no_uuid(2) [unfolded A] 3 4 turn_two(1) [unfolded A] 5 6
    run_two(1) run_no_uuid(1)
  show ?thesis by blast
qed
text \<open>
  Claim C7. For a period below \<open>MIN_YEAR_MONTH\<close>, whatever the disk holds (the ledger
  among it), a run never calls \<open>mark_period_as_processed\<close> for the period, never
  launches the action-detail extractor on the actions file of the period, and never
  launches the payment-action extractor on a payment file \<open>f\<close> of the period.
\<close>

theorem below_minimum_never_processed:
  assumes "trace w = []" and "ym < MIN_YEAR_MONTH"
  shows "MarkProcessed ym \<notin> set (trace (etl_pipeline_main e w))
       \<and> Launch EXTRACT_ACTION_DETAILS_SCRIPT [actions_filepath (TPO_API_DATA_PATH e) ym] r
           \<notin> set (trace (etl_pipeline_main e w))
       \<and> (re_search payments_pattern (basename f) = Some ym \<longrightarrow>
            Launch EXTRACT_PAYMENT_ACTIONS_SCRIPT [f] r \<notin> set (trace (etl_pipeline_main e w)))"
proof -
  have all: "\<And>ev. ev \<in> set (trace (etl_pipeline_main e w)) \<Longrightarrow> above_minimum e ev"
    using above_main [OF assms(1), of e] by (simp add: list_all_iff)
  have 1: "MarkProcessed ym \<notin> set (trace (etl_pipeline_main e w))"
    using all [of "MarkProcessed ym"] assms(2) by (auto simp: above_minimum_def)
  have 2: "Launch EXTRACT_ACTION_DETAILS_SCRIPT [actions_filepath (TPO_API_DATA_PATH e) ym] r
           \<notin> set (trace (etl_pipeline_main e w))"
    using all [of "Launch EXTRACT_ACTION_DETAILS_SCRIPT [actions_filepath (TPO_API_DATA_PATH e) ym] r"]
      assms(2) by (auto simp: above_minimum_def dest!: actions_filepath_inj)
  have 3: "re_search payments_pattern (basename f) = Some ym \<longrightarrow>
            Launch EXTRACT_PAYMENT_ACTIONS_SCRIPT [f] r \<notin> set (trace (etl_pipeline_main e w))"
    using all [of "Launch EXTRACT_PAYMENT_ACTIONS_SCRIPT [f] r"] assms(2)
    by (auto simp: above_minimum_def)
  from 1 2 3 show ?thesis by blast
qed

theorem below_minimum_never_processed_witness:
  "trace world_201712 = [] \<and> ascii ''201712'' < MIN_YEAR_MONTH
   \<and> re_search payments_pattern (basename payments_201712) = Some (ascii ''201712'')
   \<and> MarkProcessed (ascii ''201712'') \<notin> set (trace (etl_pipeline_main env_one_action world_201712))
   \<and> Launch EXTRACT_ACTION_DETAILS_SCRIPT
        [actions_filepath (TPO_API_DATA_PATH env_one_action) (ascii ''201712'')] True
        \<notin> set (trace (etl_pipeline_main env_one_action world_201712))
   \<and> Launch EXTRACT_PAYMENT_ACTIONS_SCRIPT [payments_201712] True
        \<notin> set (trace (etl_pipeline_main env_one_action world_201712))"
proof -
  have t: "trace world_201712 = []" by (simp add: world_201712_def)
  have l: "ascii ''201712'' < MIN_YEAR_MONTH" by (simp add: MIN_YEAR_MONTH_def ascii_def)
  have p: "re_search payments_pattern (basename payments_201712) = Some (ascii ''201712'')"
    by (simp add: basename_def payments_201712_def payments_pattern_def match_digits6_def
        unicode_decimal_def decimal_runs_def ascii_def)
  from below_minimum_never_processed [OF t l, of env_one_action True payments_201712] t l p
  show ?thesis by simp
qed

text \<open>
  Claim C8. The period of a payment file is the six digits of the pattern
  \<open>tpo_payments_<YYYYMM>_EXTRACTED.csv\<close> in its name; the name
  \<open>tpo_payments_202405_EXTRACTED.csv\<close> gives \<open>202405\<close>. A path that contains
  \<open>payments_metadata\<close> is not among the files the loop is given. A file whose name has
  no match of the pattern gives no period: the loop takes it up, logs it, launches
  nothing and marks nothing for it, and goes on with the files that follow.
\<close>

theorem period_discovery:
  "extract_year_month_from_filename (ascii ''tpo_payments_202405_EXTRACTED.csv'') = ascii ''202405''
   \<and> (length d = 6 \<and> list_all unicode_decimal d \<longrightarrow>
        extract_year_month_from_filename (ascii ''tpo_payments_'' @ d @ ascii ''_EXTRACTED.csv'') = d)
   \<and> (contains (ascii ''payments_metadata'') f \<longrightarrow> f \<notin> set (discover e w))
   \<and> (re_search payments_pattern (basename f) = None \<longrightarrow>
        process_file e f w = w\<lparr>trace := trace w @ [Examine f]\<rparr>
        \<and> process_files e (f # rest) w =
            process_files e rest (w\<lparr>trace := trace w @ [Examine f]\<rparr>))"
proof -
  have 1: "extract_year_month_from_filename (ascii ''tpo_payments_202405_EXTRACTED.csv'') = ascii ''202405''"
    by (simp add: extract_year_month_from_filename_def payments_pattern_def match_digits6_def
        unicode_decimal_def decimal_runs_def ascii_def)
  have 2: "length d = 6 \<and> list_all unicode_decimal d \<longrightarrow>
        extract_year_month_from_filename (ascii ''tpo_payments_'' @ d @ ascii ''_EXTRACTED.csv'') = d"
    by (simp add: extract_year_month_from_filename_def payments_pattern_here)
  have 4: "re_search payments_pattern (basename f) = None \<longrightarrow>
        process_file e f w = w\<lparr>trace := trace w @ [Examine f]\<rparr>
        \<and> process_files e (f # rest) w =
            process_files e rest (w\<lparr>trace := trace w @ [Examine f]\<rparr>)"
    by (simp add: process_files_Cons process_file_def)
  from 1 2 4 discovered_not_metadata [of f e w] show ?thesis by blast
qed

theorem period_discovery_witness:
  "extract_year_month_from_filename (ascii ''tpo_payments_'' @ ascii ''202405'' @ ascii ''_EXTRACTED.csv'')
     = ascii ''202405''
   \<and> contains (ascii ''payments_metadata'') payments_index
   \<and> payments_index \<notin> set (discover env_one_action world_folder)
   \<and> re_search payments_pattern (basename payments_other) = None
   \<and> process_file env_one_action payments_other world_folder =
        world_folder\<lparr>trace := trace world_folder @ [Examine payments_other]\<rparr>
   \<and> examined (trace (etl_pipeline_main env_one_action world_folder)) =
        [payments_other, payments_202405]"
proof -
  have d: "length (ascii ''202405'') = 6 \<and> list_all unicode_decimal (ascii ''202405'')"
    by (simp add: unicode_decimal_def decimal_runs_def ascii_def)
  have c: "contains (ascii ''payments_metadata'') payments_index"
    by (simp add: payments_index_def ascii_def)
  have n: "re_search payments_pattern (basename payments_other) = None"
    by (simp add: basename_def payments_other_def payments_pattern_def match_digits6_def ascii_def)
  note th = period_discovery [of "ascii ''202405''" payments_index env_one_action world_folder]
    period_discovery [of "ascii ''202405''" payments_other env_one_action world_folder]
  from th d c n run_folder(2) show ?thesis by blast
qed

text \<open>
  Claim C6, where the code departs from it. The claim: the periods are processed in
  ascending order, whatever the order in which the payment files are discovered. The
  code sorts the files by the first match of the pattern in the whole path, while the
  loop reads the period from the file name alone. When the data folder's own name
  matches the pattern, every file has the same key, the sort leaves the order of
  discovery as it is, and March 2020 is processed before January 2020. (When the path
  of the payments folder has no match, as with the default data path, the order is
  ascending: lemmas \<open>periods_ascending\<close> and \<open>default_folder_has_no_match\<close>.)
\<close>

theorem folder_name_defeats_the_order:
  "discover env_named world_named = [named_202003, named_202001]
   \<and> examined (trace (etl_pipeline_main env_named world_named)) = [named_202003, named_202001]
   \<and> map (\<lambda>f. extract_year_month_from_filename (basename f))
         (examined (trace (etl_pipeline_main env_named world_named))) =
       [ascii ''202003'', ascii ''202001'']
   \<and> map extract_year_month_from_filename [named_202003, named_202001] =
       [ascii ''000000'', ascii ''000000'']"
  by (simp add: run_defs more_defs env_named_def world_named_def named_202003_def named_202001_def)

text \<open>
  Claim C9, as amended. The claim: a comment containing the phrase of March 2024, in any
  letter case, gives the period \<open>202403\<close>; a comment without a month and year gives no
  period, and its record is in no period file. Amended: the comment gives \<open>202403\<close> when
  the phrase (\<open>t\<close>, in small or capital letters) is the first match of the pattern in
  it, that is, when no match starts before the phrase. A comment without a match, and a
  comment that is no string, give no period. A record without a period is not among
  the rows of any period; and a file that the extractor writes, other than the metadata
  index, is the file of a period \<open>ym\<close> and holds exactly the rows of that period.
\<close>

theorem comment_to_period:
  "(map lower_cyrillic t = za_mart_2024
      \<and> (\<forall>i<length pre. comment_pattern (drop i (pre @ t @ post)) = None)
      \<longrightarrow> extract_year_month_from_comment (StrCell (pre @ t @ post)) = Some (ascii ''202403''))
   \<and> (re_search comment_pattern text = None \<longrightarrow>
        extract_year_month_from_comment (StrCell text) = None)
   \<and> extract_year_month_from_comment (IntCell n) = None
   \<and> extract_year_month_from_comment NaN = None
   \<and> (extract_year_month_from_comment (lookup r (ascii ''comment'')) = None \<longrightarrow>
        tag_row r \<notin> set (period_rows data ym))
   \<and> (get_user_payments e = Json data \<longrightarrow>
        map_of (files (snd (payments_main e w))) p = map_of (files w) p
        \<or> p = path_join (TPO_API_DATA_PATH e) PAYMENTS_METADATA_FILENAME
        \<or> (\<exists>ym. p = payments_csv_filepath (TPO_API_DATA_PATH e) ym
              \<and> map_of (files (snd (payments_main e w))) p =
                  Some (Csv (csv_text (frame_with (payments_columns data) (period_rows data ym))))))"
proof -
  have 2: "re_search comment_pattern text = None \<longrightarrow>
        extract_year_month_from_comment (StrCell text) = None"
    by (simp add: extract_year_month_from_comment_def)
  have 3: "extract_year_month_from_comment (IntCell n) = None"
    "extract_year_month_from_comment NaN = None"
    by (simp_all add: extract_year_month_from_comment_def)
  from extract_march [of t pre post] 2 3 untagged_in_no_period [of r data ym]
    files_payments_main [of e data w p]
  show ?thesis by blast
qed

theorem comment_to_period_witness:
  "map lower_cyrillic ZA_MART_2024 = za_mart_2024
   \<and> extract_year_month_from_comment (StrCell (ascii ''Payout '' @ ZA_MART_2024 @ ascii ''.'')) =
       Some (ascii ''202403'')
   \<and> extract_year_month_from_comment (StrCell (ascii ''bonus'')) = None
   \<and> map_of (files (snd (payments_main env_comments world0))) payments_202403 =
       Some (Csv [(ascii ''payment_uuid'', [ascii ''p-1'']), (ascii ''comment'', [za_mart_2024]),
                  (ascii ''year_month'', [ascii ''202403''])])"
proof -
  have l: "map lower_cyrillic ZA_MART_2024 = za_mart_2024"
    by (simp add: ZA_MART_2024_def za_mart_2024_def lower_cyrillic_def)
  have n: "re_search comment_pattern (ascii ''bonus'') = None"
    by (simp add: ascii_def comment_pattern_def literal_ignorecase_def ignorecase_fixes_def
        lower_cyrillic_def)
  note th = comment_to_period [of ZA_MART_2024 "ascii ''Payout ''" "ascii ''.''" "ascii ''bonus''"]
  from th l no_match_before_phrase
  have a: "extract_year_month_from_comment (StrCell (ascii ''Payout '' @ ZA_MART_2024 @ ascii ''.'')) =
       Some (ascii ''202403'')"
    by blast
  from th n have b: "extract_year_month_from_comment (StrCell (ascii ''bonus'')) = None"
    by blast
  from l a b payments_comments show ?thesis by simp
qed

text \<open>
  Claim C9 as stated fails: \<open>re.search\<close> returns the first match. This comment contains
  the phrase of March 2024 after the phrase of May 2023, and its period is \<open>202305\<close>.
\<close>

theorem later_phrase_is_not_the_period:
  "contains za_mart_2024 (za_mai_2023 @ ascii '' '' @ za_mart_2024)
   \<and> extract_year_month_from_comment (StrCell (za_mai_2023 @ ascii '' '' @ za_mart_2024)) =
       Some (ascii ''202305'')"
  by (simp add: za_mart_2024_def za_mai_2023_def extract_year_month_from_comment_def
      comment_pattern_def month_dict_def literal_ignorecase_def ignorecase_fixes_def
      lower_cyrillic_def match_year_def unicode_space_def unicode_decimal_def decimal_runs_def
      ascii_def)

end
